theory Spec2Isabelle
  imports Main
begin

section \<open>Python values and exceptions\<close>

text \<open>
  The routes of \<^verbatim>\<open>routes.py\<close> pass around the values that the generation helpers return and
  that \<^verbatim>\<open>json.dumps\<close> serialises: \<^verbatim>\<open>None\<close>, booleans, numbers, strings, lists and
  dictionaries with string keys. A float is kept as its literal; no route computes with one.
  A Python \<^verbatim>\<open>str\<close> is a list of code points; the model has the code points below 256.
\<close>

datatype json =
    JNull
  | JBool bool
  | JInt int
  | JFloat string
  | JStr string
  | JArr "json list"
  | JObj "(string \<times> json) list"

text \<open>
  An exception is a value. \<open>KeyError\<close> carries the \<^verbatim>\<open>repr\<close> of the missing key, the others
  their message; \<open>Raised\<close> is an exception of a collaborator (the generation service, the
  database driver) with the text \<^verbatim>\<open>str(e)\<close> gives for it.
\<close>

datatype exn =
    KeyError string
  | IndexError string
  | TypeError string
  | ValueError string
  | Raised string

fun str_exn :: "exn \<Rightarrow> string" where
  "str_exn (KeyError k) = k"
| "str_exn (IndexError m) = m"
| "str_exn (TypeError m) = m"
| "str_exn (ValueError m) = m"
| "str_exn (Raised m) = m"

definition bind_exn :: "exn + 'a \<Rightarrow> ('a \<Rightarrow> exn + 'b) \<Rightarrow> exn + 'b" where
  "bind_exn m f = (case m of Inl e \<Rightarrow> Inl e | Inr x \<Rightarrow> f x)"

subsection \<open>\<^verbatim>\<open>repr\<close> of a string\<close>

definition hex_digit :: "nat \<Rightarrow> char" where
  "hex_digit n = ''0123456789abcdef'' ! (n mod 16)"

definition is_printable :: "char \<Rightarrow> bool" where
  "is_printable c =
     (let n = (of_char c :: nat)
      in (32 \<le> n \<and> n < 127) \<or> (161 \<le> n \<and> n \<noteq> 173))"

definition repr_char :: "char \<Rightarrow> char \<Rightarrow> string" where
  "repr_char q c =
     (if c = q \<or> c = CHR 0x5C then [CHR 0x5C, c]
      else if c = CHR 0x09 then [CHR 0x5C, CHR ''t'']
      else if c = CHR 0x0A then [CHR 0x5C, CHR ''n'']
      else if c = CHR 0x0D then [CHR 0x5C, CHR ''r'']
      else if is_printable c then [c]
      else [CHR 0x5C, CHR ''x'', hex_digit (of_char c div 16), hex_digit (of_char c)])"

definition py_repr :: "string \<Rightarrow> string" where
  "py_repr s =
     (let q = (if CHR 0x27 \<in> set s \<and> CHR 0x22 \<notin> set s then CHR 0x22 else CHR 0x27)
      in [q] @ concat (map (repr_char q) s) @ [q])"

subsection \<open>Subscripts\<close>

fun type_name :: "json \<Rightarrow> string" where
  "type_name JNull = ''NoneType''"
| "type_name (JBool _) = ''bool''"
| "type_name (JInt _) = ''int''"
| "type_name (JFloat _) = ''float''"
| "type_name (JStr _) = ''str''"
| "type_name (JArr _) = ''list''"
| "type_name (JObj _) = ''dict''"

definition not_subscriptable :: "json \<Rightarrow> exn" where
  "not_subscriptable v = TypeError ([CHR 0x27] @ type_name v @ [CHR 0x27] @ '' object is not subscriptable'')"

text \<open>\<^verbatim>\<open>v[key]\<close> with a string key, as in \<^verbatim>\<open>meal_plan_data['meal_plan']\<close>.\<close>

fun getitem_str :: "json \<Rightarrow> string \<Rightarrow> exn + json" where
  "getitem_str (JObj kvs) k =
     (case map_of kvs k of None \<Rightarrow> Inl (KeyError (py_repr k)) | Some v \<Rightarrow> Inr v)"
| "getitem_str (JArr _) k = Inl (TypeError ''list indices must be integers or slices, not str'')"
| "getitem_str (JStr _) k = Inl (TypeError (''string indices must be integers, not '' @ [CHR 0x27] @ ''str'' @ [CHR 0x27]))"
| "getitem_str v k = Inl (not_subscriptable v)"

text \<open>
  \<^verbatim>\<open>v[i]\<close> with an integer index, as in \<^verbatim>\<open>[0]\<close> and \<^verbatim>\<open>[-1]\<close>: a negative index counts from
  the end, an index out of range raises. A dictionary built from JSON has string keys only,
  so an integer is never one of its keys.
\<close>

definition show_nat_digit :: "nat \<Rightarrow> char" where
  "show_nat_digit n = ''0123456789'' ! (n mod 10)"

fun show_nat_fuel :: "nat \<Rightarrow> nat \<Rightarrow> string" where
  "show_nat_fuel 0 n = [show_nat_digit n]"
| "show_nat_fuel (Suc f) n =
     (if n < 10 then [show_nat_digit n] else show_nat_fuel f (n div 10) @ [show_nat_digit n])"

definition show_int :: "int \<Rightarrow> string" where
  "show_int i = (if i < 0 then ''-'' else []) @ show_nat_fuel (nat \<bar>i\<bar>) (nat \<bar>i\<bar>)"

definition seq_index :: "'a list \<Rightarrow> int \<Rightarrow> 'a option" where
  "seq_index xs i =
     (let n = int (length xs); j = (if i < 0 then n + i else i)
      in if 0 \<le> j \<and> j < n then Some (xs ! nat j) else None)"

fun getitem_int :: "json \<Rightarrow> int \<Rightarrow> exn + json" where
  "getitem_int (JArr xs) i =
     (case seq_index xs i of None \<Rightarrow> Inl (IndexError ''list index out of range'') | Some v \<Rightarrow> Inr v)"
| "getitem_int (JStr s) i =
     (case seq_index s i of None \<Rightarrow> Inl (IndexError ''string index out of range'')
      | Some c \<Rightarrow> Inr (JStr [c]))"
| "getitem_int (JObj _) i = Inl (KeyError (show_int i))"
| "getitem_int v i = Inl (not_subscriptable v)"

section \<open>Dates\<close>

record pydate =
  year :: nat
  month :: nat
  day :: nat

text \<open>Python compares two \<^verbatim>\<open>date\<close> objects as the triples (year, month, day).\<close>

definition date_le :: "pydate \<Rightarrow> pydate \<Rightarrow> bool" where
  "date_le a b =
     (year a < year b \<or>
      (year a = year b \<and> (month a < month b \<or> (month a = month b \<and> day a \<le> day b))))"

definition is_leap :: "nat \<Rightarrow> bool" where
  "is_leap y = (y mod 4 = 0 \<and> (y mod 100 \<noteq> 0 \<or> y mod 400 = 0))"

definition days_in_month :: "nat \<Rightarrow> nat \<Rightarrow> nat" where
  "days_in_month y m =
     (if m = 2 then (if is_leap y then 29 else 28)
      else if m \<in> {4, 6, 9, 11} then 30 else 31)"

subsection \<open>\<^verbatim>\<open>datetime.strptime(s, '%Y-%m-%d').date()\<close>\<close>

text \<open>
  \<^verbatim>\<open>strptime\<close> matches the string from its start against the regular expression of the
  format,
  \<^verbatim>\<open>(\d\d\d\d)-(1[0-2]|0[1-9]|[1-9])-(3[0-1]|[1-2]\d|0[1-9]|[1-9]| [1-9])\<close>,
  taking the first match in the order of the alternatives; it raises \<open>ValueError\<close> when
  nothing matches, when the match leaves text over, and when the three numbers are no date
  (year 0, or a day the month does not have).
\<close>

definition is_digit :: "char \<Rightarrow> bool" where
  "is_digit c = (48 \<le> (of_char c :: nat) \<and> (of_char c :: nat) \<le> 57)"

definition digit_val :: "char \<Rightarrow> nat" where
  "digit_val c = of_char c - 48"

definition in_range :: "char \<Rightarrow> char \<Rightarrow> char \<Rightarrow> bool" where
  "in_range lo hi c = ((of_char lo :: nat) \<le> of_char c \<and> (of_char c :: nat) \<le> of_char hi)"

definition match_year :: "string \<Rightarrow> (nat \<times> string) option" where
  "match_year s =
     (case s of
        a # b # c # d # r \<Rightarrow>
          if is_digit a \<and> is_digit b \<and> is_digit c \<and> is_digit d
          then Some (((digit_val a * 10 + digit_val b) * 10 + digit_val c) * 10 + digit_val d, r)
          else None
      | _ \<Rightarrow> None)"

text \<open>The alternatives of a group that match at the start of \<open>s\<close>, in the order of the pattern.\<close>

definition month_alts :: "string \<Rightarrow> (nat \<times> string) list" where
  "month_alts s =
     (case s of a # b # r \<Rightarrow>
        (if a = CHR ''1'' \<and> in_range CHR ''0'' CHR ''2'' b then [(10 + digit_val b, r)] else []) @
        (if a = CHR ''0'' \<and> in_range CHR ''1'' CHR ''9'' b then [(digit_val b, r)] else [])
      | _ \<Rightarrow> []) @
     (case s of a # r \<Rightarrow> (if in_range CHR ''1'' CHR ''9'' a then [(digit_val a, r)] else [])
      | _ \<Rightarrow> [])"

definition day_alts :: "string \<Rightarrow> (nat \<times> string) list" where
  "day_alts s =
     (case s of a # b # r \<Rightarrow>
        (if a = CHR ''3'' \<and> in_range CHR ''0'' CHR ''1'' b then [(30 + digit_val b, r)] else []) @
        (if in_range CHR ''1'' CHR ''2'' a \<and> is_digit b then [(digit_val a * 10 + digit_val b, r)] else []) @
        (if a = CHR ''0'' \<and> in_range CHR ''1'' CHR ''9'' b then [(digit_val b, r)] else [])
      | _ \<Rightarrow> []) @
     (case s of a # r \<Rightarrow> (if in_range CHR ''1'' CHR ''9'' a then [(digit_val a, r)] else [])
      | _ \<Rightarrow> []) @
     (case s of a # b # r \<Rightarrow>
        (if a = CHR '' '' \<and> in_range CHR ''1'' CHR ''9'' b then [(digit_val b, r)] else [])
      | _ \<Rightarrow> [])"

fun first_some :: "'a option list \<Rightarrow> 'a option" where
  "first_some [] = None"
| "first_some (None # xs) = first_some xs"
| "first_some (Some x # xs) = Some x"

definition after_dash :: "string \<Rightarrow> string option" where
  "after_dash s = (case s of c # r \<Rightarrow> if c = CHR ''-'' then Some r else None | [] \<Rightarrow> None)"

definition ymd_match :: "string \<Rightarrow> (nat \<times> nat \<times> nat \<times> string) option" where
  "ymd_match s =
     (case match_year s of
        None \<Rightarrow> None
      | Some (y, r1) \<Rightarrow>
          (case after_dash r1 of
             None \<Rightarrow> None
           | Some r2 \<Rightarrow>
               first_some
                 (map (\<lambda>(m, r3).
                        case after_dash r3 of
                          None \<Rightarrow> None
                        | Some r4 \<Rightarrow>
                            (case day_alts r4 of [] \<Rightarrow> None | (d, r5) # _ \<Rightarrow> Some (y, m, d, r5)))
                      (month_alts r2))))"

text \<open>
  An argument that is no string is named in the \<open>TypeError\<close> by its type, and \<^verbatim>\<open>None\<close> as
  \<^verbatim>\<open>None\<close>.
\<close>

definition arg_type_name :: "json \<Rightarrow> string" where
  "arg_type_name v = (case v of JNull \<Rightarrow> ''None'' | _ \<Rightarrow> type_name v)"

definition strptime_date :: "json \<Rightarrow> exn + pydate" where
  "strptime_date v =
     (case v of
        JStr s \<Rightarrow>
          (case ymd_match s of
             None \<Rightarrow>
               Inl (ValueError (''time data '' @ py_repr s @ '' does not match format '' @
                                py_repr ''%Y-%m-%d''))
           | Some (y, m, d, r) \<Rightarrow>
               if r \<noteq> [] then Inl (ValueError (''unconverted data remains: '' @ r))
               else if y = 0 then Inl (ValueError ''year 0 is out of range'')
               else if days_in_month y m < d then Inl (ValueError ''day is out of range for month'')
               else Inr \<lparr>year = y, month = m, day = d\<rparr>)
      | _ \<Rightarrow>
          Inl (TypeError (''strptime() argument 1 must be str, not '' @ arg_type_name v)))"

section \<open>The models (\<^verbatim>\<open>models.py\<close>)\<close>

text \<open>
  A model class is a record of its columns. A row's \<^verbatim>\<open>id\<close> is \<open>None\<close> on an object that
  has not been inserted yet; a column without \<^verbatim>\<open>nullable=False\<close> may hold \<open>None\<close>, and so may
  the attribute of a Python object before the database has checked it. The fields
  \<^verbatim>\<open>id\<close>, \<^verbatim>\<open>user_id\<close> and \<^verbatim>\<open>created_at\<close> of the two classes carry the class in their
  name, since a record field is a constant of the theory. A time stamp is a number.
\<close>

record MealPreference =
  pref_id :: "int option"
  pref_user_id :: int
  meal_type :: "string option"
  preferred_time :: "string option"
  calories_target :: "int option"
  protein_target :: "int option"
  carbs_target :: "int option"
  fat_target :: "int option"
  excluded_ingredients :: "string option"
  available_ingredients :: "string option"
  preferred_cuisine :: "string option"
  pref_created_at :: "nat option"
  pref_updated_at :: "nat option"

record MealPlan =
  plan_id :: "int option"
  plan_user_id :: int
  start_date :: pydate
  end_date :: pydate
  meal_plan_data :: "string option"
  shopping_list :: "string option"
  plan_created_at :: "nat option"

text \<open>
  The collaborators of the routes that are not in the sources, as parameters:
  \<^verbatim>\<open>generate_meal_plan\<close> and \<^verbatim>\<open>generate_shopping_list\<close> of \<^verbatim>\<open>utils/meal_planner.py\<close>
  (each returns a value or raises, and neither is handed the database session),
  \<^verbatim>\<open>json.dumps\<close> and \<^verbatim>\<open>json.loads\<close> of the standard library,
  whether \<^verbatim>\<open>db.session.commit()\<close> raises, the clock \<^verbatim>\<open>datetime.utcnow\<close>, and which of
  several matching rows the database answers first (\<open>row_choice\<close>, see \<open>query_first\<close>).
\<close>

record env =
  generate_meal_plan :: "MealPreference \<Rightarrow> exn + json"
  generate_shopping_list :: "json \<Rightarrow> exn + json"
  json_dumps :: "json \<Rightarrow> exn + string"
  json_loads :: "string \<Rightarrow> exn + json"
  commit_error :: "exn option"
  utcnow :: nat
  row_choice :: nat

subsection \<open>\<^verbatim>\<open>MealPlan.get_meal_plan\<close>, \<^verbatim>\<open>MealPlan.get_shopping_list\<close>\<close>

text \<open>
  \<^verbatim>\<open>return json.loads(self.meal_plan_data) if self.meal_plan_data else {}\<close>: \<open>None\<close> and the
  empty string are the two falsy values of the column.
\<close>

definition get_meal_plan :: "env \<Rightarrow> MealPlan \<Rightarrow> exn + json" where
  "get_meal_plan E p =
     (case meal_plan_data p of
        None \<Rightarrow> Inr (JObj [])
      | Some s \<Rightarrow> if s = [] then Inr (JObj []) else json_loads E s)"

definition get_shopping_list :: "env \<Rightarrow> MealPlan \<Rightarrow> exn + json" where
  "get_shopping_list E p =
     (case shopping_list p of
        None \<Rightarrow> Inr (JObj [])
      | Some s \<Rightarrow> if s = [] then Inr (JObj []) else json_loads E s)"

section \<open>The database\<close>

text \<open>
  The two tables of the meal-plan pipeline, each a list of its rows. The place of a row
  in the list is not the order in which the database answers a query: see \<open>query_first\<close>. The other tables
  (users, profiles, wellness plans, workouts, tips) are read and written only by routes that
  name neither \<^verbatim>\<open>MealPreference\<close> nor \<^verbatim>\<open>MealPlan\<close>.
\<close>

record db =
  meal_preference_rows :: "MealPreference list"
  meal_plan_rows :: "MealPlan list"

text \<open>
  \<^verbatim>\<open>Model.query.filter_by(...).first()\<close> has no \<^verbatim>\<open>order_by\<close>: of the rows that match, the
  database answers with the one it comes to first, and which one that is is its choice (on
  PostgreSQL a row that was updated is no longer where it was). The choice is the parameter
  \<open>row_choice\<close> of the request, so every matching row can be the answer; no row matching
  gives \<open>None\<close>.
\<close>

definition query_first :: "env \<Rightarrow> ('a \<Rightarrow> bool) \<Rightarrow> 'a list \<Rightarrow> 'a option" where
  "query_first E P rows =
     (case filter P rows of
        [] \<Rightarrow> None
      | x # xs \<Rightarrow> Some ((x # xs) ! (row_choice E mod length (x # xs))))"

text \<open>The primary key of a new row: larger than every key of the table.\<close>

definition next_id :: "int option list \<Rightarrow> int" where
  "next_id ids = fold max (List.map_filter (\<lambda>i. i) ids) 0 + 1"

definition default_now :: "nat \<Rightarrow> nat option \<Rightarrow> nat option" where
  "default_now now t = (case t of None \<Rightarrow> Some now | Some x \<Rightarrow> Some x)"

text \<open>
  \<^verbatim>\<open>db.session.add(obj)\<close> of a new object: the row the commit inserts, with its key and the
  column defaults. Adding an object that was loaded from the database changes nothing.
\<close>

definition session_add_preference :: "nat \<Rightarrow> MealPreference \<Rightarrow> MealPreference list \<Rightarrow> MealPreference list" where
  "session_add_preference now p rows =
     (case pref_id p of
        None \<Rightarrow>
          rows @ [p\<lparr>pref_id := Some (next_id (map pref_id rows)),
                    pref_created_at := default_now now (pref_created_at p),
                    pref_updated_at := default_now now (pref_updated_at p)\<rparr>]
      | Some _ \<Rightarrow> rows)"

definition session_add_plan :: "nat \<Rightarrow> MealPlan \<Rightarrow> MealPlan list \<Rightarrow> MealPlan \<times> MealPlan list" where
  "session_add_plan now p rows =
     (case plan_id p of
        None \<Rightarrow>
          (let q = p\<lparr>plan_id := Some (next_id (map plan_id rows)),
                      plan_created_at := default_now now (plan_created_at p)\<rparr>
           in (q, rows @ [q]))
      | Some _ \<Rightarrow> (p, rows))"

text \<open>
  An object loaded by a query is tracked by the session: the commit writes its changed
  attributes to the row with its key (\<^verbatim>\<open>UPDATE ... WHERE id = ?\<close>) and, as it writes,
  sets \<^verbatim>\<open>updated_at\<close> (\<^verbatim>\<open>onupdate=datetime.utcnow\<close>). No change, no write.
\<close>

definition session_dirty_preference :: "nat \<Rightarrow> MealPreference \<Rightarrow> MealPreference list \<Rightarrow> MealPreference list" where
  "session_dirty_preference now p rows =
     map (\<lambda>r. if pref_id r = pref_id p \<and> r \<noteq> p then p\<lparr>pref_updated_at := Some now\<rparr> else r) rows"

text \<open>
  \<^verbatim>\<open>db.session.commit()\<close>: the changes of the session become the stored tables, or the commit
  raises and the stored tables stay as they were. The argument \<open>pending\<close> is the database
  with the session's changes; the caller keeps the stored one. The session lives for one
  request: what it has not committed is dropped when the request ends, whether the route
  calls \<^verbatim>\<open>db.session.rollback()\<close> in its \<^verbatim>\<open>except\<close> branch (\<^verbatim>\<open>meal_preferences\<close>) or not
  (\<^verbatim>\<open>generate_new_meal_plan\<close>). A query is taken to answer; only the commit may raise.
\<close>

definition session_commit :: "env \<Rightarrow> 'a \<Rightarrow> exn + 'a" where
  "session_commit E pending = (case commit_error E of Some e \<Rightarrow> Inl e | None \<Rightarrow> Inr pending)"

section \<open>The form (\<^verbatim>\<open>forms.py\<close>, \<^verbatim>\<open>MealPreferenceForm\<close>)\<close>

record pytime =
  hour :: nat
  minute :: nat
  second :: nat

text \<open>
  The form after WTForms has read the request: \<open>x_data\<close> is \<^verbatim>\<open>form.x.data\<close>. An integer
  field that is missing or does not parse has the data \<open>None\<close>, as has a time field; a select
  or string field that is missing has \<open>None\<close>. \<open>csrf_valid\<close> is the check of \<^verbatim>\<open>FlaskForm\<close>'s
  own token field (true where the application switches it off).
\<close>

record MealPreferenceForm =
  csrf_valid :: bool
  meal_type_data :: "string option"
  preferred_time_data :: "pytime option"
  calories_target_data :: "int option"
  protein_target_data :: "int option"
  carbs_target_data :: "int option"
  fat_target_data :: "int option"
  excluded_ingredients_data :: "string option"
  available_ingredients_data :: "string option"
  preferred_cuisine_data :: "string option"

subsection \<open>\<^verbatim>\<open>str.strip\<close>, \<^verbatim>\<open>str.split\<close>, \<^verbatim>\<open>time.strftime\<close>\<close>

text \<open>The white space of \<^verbatim>\<open>str.strip()\<close> among the code points below 256.\<close>

definition is_space :: "char \<Rightarrow> bool" where
  "is_space c = ((of_char c :: nat) \<in> {9, 10, 11, 12, 13, 28, 29, 30, 31, 32, 133, 160})"

definition strip :: "string \<Rightarrow> string" where
  "strip s = rev (dropWhile is_space (rev (dropWhile is_space s)))"

text \<open>\<^verbatim>\<open>s.split(',')\<close>: one more item than there are commas, empty items kept.\<close>

fun split_on :: "char \<Rightarrow> string \<Rightarrow> string list" where
  "split_on sep [] = [[]]"
| "split_on sep (c # cs) =
     (if c = sep then [] # split_on sep cs
      else (case split_on sep cs of w # ws \<Rightarrow> (c # w) # ws | [] \<Rightarrow> [[c]]))"

definition two_digits :: "nat \<Rightarrow> string" where
  "two_digits n = [show_nat_digit (n div 10), show_nat_digit n]"

definition strftime_HM :: "pytime \<Rightarrow> string" where
  "strftime_HM t = two_digits (hour t) @ '':'' @ two_digits (minute t)"

subsection \<open>Validators\<close>

definition meal_type_choices :: "string list" where
  "meal_type_choices = [''breakfast'', ''lunch'', ''dinner'', ''snack'']"

definition cuisine_choices :: "string list" where
  "cuisine_choices = [''any'', ''mediterranean'', ''asian'', ''mexican'', ''indian'', ''italian'',
                      ''american'', ''vegetarian'', ''vegan'']"

text \<open>\<^verbatim>\<open>SelectField.pre_validate\<close>: the data is the value of one of the choices.\<close>

definition valid_choice :: "string list \<Rightarrow> string option \<Rightarrow> bool" where
  "valid_choice choices d = (case d of None \<Rightarrow> False | Some s \<Rightarrow> s \<in> set choices)"

text \<open>
  \<^verbatim>\<open>DataRequired\<close>: the data is truthy and, when a string, not blank. Every \<^verbatim>\<open>time\<close>
  object is truthy (midnight too, since Python 3.5).
\<close>

definition DataRequired_str :: "string option \<Rightarrow> bool" where
  "DataRequired_str d = (case d of None \<Rightarrow> False | Some s \<Rightarrow> s \<noteq> [] \<and> strip s \<noteq> [])"

definition DataRequired_time :: "pytime option \<Rightarrow> bool" where
  "DataRequired_time d = (case d of None \<Rightarrow> False | Some _ \<Rightarrow> True)"

text \<open>\<^verbatim>\<open>NumberRange(min, max)\<close>: the data is a number within the bounds, both included.\<close>

definition NumberRange :: "int \<Rightarrow> int \<Rightarrow> int option \<Rightarrow> bool" where
  "NumberRange lo hi d = (case d of None \<Rightarrow> False | Some v \<Rightarrow> lo \<le> v \<and> v \<le> hi)"

definition validate :: "MealPreferenceForm \<Rightarrow> bool" where
  "validate form =
     (csrf_valid form \<and>
      valid_choice meal_type_choices (meal_type_data form) \<and> DataRequired_str (meal_type_data form) \<and>
      DataRequired_time (preferred_time_data form) \<and>
      NumberRange 0 2000 (calories_target_data form) \<and>
      NumberRange 0 200 (protein_target_data form) \<and>
      NumberRange 0 300 (carbs_target_data form) \<and>
      NumberRange 0 100 (fat_target_data form) \<and>
      valid_choice cuisine_choices (preferred_cuisine_data form))"

datatype http_method = GET | POST

definition validate_on_submit :: "http_method \<Rightarrow> MealPreferenceForm \<Rightarrow> bool" where
  "validate_on_submit m form = (m = POST \<and> validate form)"

section \<open>The routes (\<^verbatim>\<open>routes.py\<close>)\<close>

text \<open>
  What a route answers: the messages it flashed, each with its category, and the page.
  Writing to the log is not part of the answer.
\<close>

datatype page =
    Redirect_meal_preferences
  | Redirect_view_meal_plan "int option"
  | Render_meal_preferences "MealPreference list"
  | Render_view_meal_plan MealPlan
  | Render_list_meal_plans "MealPlan list"
  | Not_found
  | Unauthorized
  | Other_page

type_synonym response = "(string \<times> string) list \<times> page"

subsection \<open>\<^verbatim>\<open>meal_preferences\<close>\<close>

text \<open>
  \<^verbatim>\<open>[i.strip() for i in s.split(',') if i.strip()]\<close>, after \<^verbatim>\<open>s = form.x.data or ''\<close>.
\<close>

definition or_empty :: "string option \<Rightarrow> string" where
  "or_empty d = (case d of None \<Rightarrow> [] | Some s \<Rightarrow> s)"

definition ingredients_list :: "string \<Rightarrow> string list" where
  "ingredients_list s = map strip (filter (\<lambda>i. strip i \<noteq> []) (split_on CHR '','' s))"

text \<open>\<^verbatim>\<open>not preference.id\<close>: no key yet, or the key 0.\<close>

definition not_id :: "int option \<Rightarrow> bool" where
  "not_id i = (case i of None \<Rightarrow> True | Some k \<Rightarrow> k = 0)"

definition new_MealPreference :: "int \<Rightarrow> MealPreference" where
  "new_MealPreference uid =
     \<lparr>pref_id = None, pref_user_id = uid, meal_type = None, preferred_time = None,
      calories_target = None, protein_target = None, carbs_target = None, fat_target = None,
      excluded_ingredients = None, available_ingredients = None, preferred_cuisine = None,
      pref_created_at = None, pref_updated_at = None\<rparr>"

text \<open>The body of the \<^verbatim>\<open>try\<close>: the stored tables after the commit, or the exception.\<close>

definition meal_preferences_try :: "env \<Rightarrow> int \<Rightarrow> MealPreferenceForm \<Rightarrow> db \<Rightarrow> exn + db" where
  "meal_preferences_try E uid form d =
     (let found = query_first E (\<lambda>p. pref_user_id p = uid \<and> meal_type p = meal_type_data form)
                                (meal_preference_rows d);
          preference0 = (case found of None \<Rightarrow> new_MealPreference uid | Some p \<Rightarrow> p);
          preference1 = preference0
            \<lparr>meal_type := meal_type_data form,
             preferred_time := map_option strftime_HM (preferred_time_data form),
             calories_target := calories_target_data form,
             protein_target := protein_target_data form,
             carbs_target := carbs_target_data form,
             fat_target := fat_target_data form\<rparr>;
          excluded_list = ingredients_list (or_empty (excluded_ingredients_data form));
          available_list = ingredients_list (or_empty (available_ingredients_data form))
      in bind_exn (json_dumps E (JArr (map JStr excluded_list))) (\<lambda>excluded_json.
         bind_exn (json_dumps E (JArr (map JStr available_list))) (\<lambda>available_json.
           let preference = preference1
                 \<lparr>excluded_ingredients := Some excluded_json,
                  available_ingredients := Some available_json,
                  preferred_cuisine := preferred_cuisine_data form\<rparr>;
               tracked = (case found of
                            None \<Rightarrow> meal_preference_rows d
                          | Some _ \<Rightarrow> session_dirty_preference (utcnow E) preference (meal_preference_rows d));
               pending = (if not_id (pref_id preference)
                          then session_add_preference (utcnow E) preference tracked
                          else tracked)
           in session_commit E (d\<lparr>meal_preference_rows := pending\<rparr>))))"

text \<open>
  \<^verbatim>\<open>MealPreference.query.filter_by(user_id=current_user.id).all()\<close>, the rows shown on the
  page: the rows of the user, here in the order of the table (the query names no order).
\<close>

definition user_preferences :: "int \<Rightarrow> db \<Rightarrow> MealPreference list" where
  "user_preferences uid d = filter (\<lambda>p. pref_user_id p = uid) (meal_preference_rows d)"

definition meal_preferences :: "env \<Rightarrow> int \<Rightarrow> http_method \<Rightarrow> MealPreferenceForm \<Rightarrow> db \<Rightarrow> response \<times> db" where
  "meal_preferences E uid m form d =
     (if validate_on_submit m form then
        (case meal_preferences_try E uid form d of
           Inr d' \<Rightarrow>
             (([(''Meal preferences updated successfully!'', ''success'')], Redirect_meal_preferences), d')
         | Inl e \<Rightarrow>
             (([(''Error updating meal preferences. Please try again.'', ''error'')],
               Render_meal_preferences (user_preferences uid d)), d))
      else (([], Render_meal_preferences (user_preferences uid d)), d))"

subsection \<open>\<^verbatim>\<open>generate_new_meal_plan\<close>\<close>

text \<open>
  \<^verbatim>\<open>datetime.strptime(entry['date'], '%Y-%m-%d').date()\<close> for a day-entry, and
  \<^verbatim>\<open>datetime.strptime(meal_plan_data['meal_plan'][i]['date'], '%Y-%m-%d').date()\<close>
  for \<open>i\<close> = 0 and \<open>i\<close> = -1.
\<close>

definition day_entry_date :: "json \<Rightarrow> exn + pydate" where
  "day_entry_date entry = bind_exn (getitem_str entry ''date'') strptime_date"

definition entry_date :: "json \<Rightarrow> int \<Rightarrow> exn + pydate" where
  "entry_date plan_data i =
     bind_exn (getitem_str plan_data ''meal_plan'') (\<lambda>entries.
     bind_exn (getitem_int entries i) day_entry_date)"

text \<open>The body of the \<^verbatim>\<open>try\<close>: the answer and the stored tables, or the exception.\<close>

definition generate_new_meal_plan_try :: "env \<Rightarrow> int \<Rightarrow> db \<Rightarrow> exn + response \<times> db" where
  "generate_new_meal_plan_try E uid d =
     (case query_first E (\<lambda>p. pref_user_id p = uid) (meal_preference_rows d) of
        None \<Rightarrow>
          Inr (([(''Please set your meal preferences first'', ''warning'')], Redirect_meal_preferences), d)
      | Some preferences \<Rightarrow>
          bind_exn (generate_meal_plan E preferences) (\<lambda>plan_data.
          bind_exn (generate_shopping_list E plan_data) (\<lambda>list_data.
          bind_exn (entry_date plan_data 0) (\<lambda>start_d.
          bind_exn (entry_date plan_data (- 1)) (\<lambda>end_d.
          bind_exn (json_dumps E plan_data) (\<lambda>plan_json.
          bind_exn (json_dumps E list_data) (\<lambda>list_json.
            let meal_plan = \<lparr>plan_id = None, plan_user_id = uid, start_date = start_d,
                             end_date = end_d, meal_plan_data = Some plan_json,
                             shopping_list = Some list_json, plan_created_at = None\<rparr>;
                (stored, pending) = session_add_plan (utcnow E) meal_plan (meal_plan_rows d)
            in bind_exn (session_commit E (d\<lparr>meal_plan_rows := pending\<rparr>)) (\<lambda>d'.
                 Inr (([(''Your personalized meal plan has been generated!'', ''success'')],
                       Redirect_view_meal_plan (plan_id stored)), d')))))))))"

definition generate_new_meal_plan :: "env \<Rightarrow> int \<Rightarrow> db \<Rightarrow> response \<times> db" where
  "generate_new_meal_plan E uid d =
     (case generate_new_meal_plan_try E uid d of
        Inr r \<Rightarrow> r
      | Inl e \<Rightarrow>
          (([(''Error generating meal plan: '' @ str_exn e, ''error'')], Redirect_meal_preferences), d))"

subsection \<open>\<^verbatim>\<open>view_meal_plan\<close>, \<^verbatim>\<open>list_meal_plans\<close>\<close>

text \<open>
  \<^verbatim>\<open>MealPlan.query.filter_by(id=plan_id, user_id=current_user.id).first_or_404()\<close>: the
  filter names the primary key, so at most one row matches and there is nothing to choose.
\<close>

definition view_meal_plan :: "int \<Rightarrow> int \<Rightarrow> db \<Rightarrow> response" where
  "view_meal_plan uid pid d =
     (case find (\<lambda>p. plan_id p = Some pid \<and> plan_user_id p = uid) (meal_plan_rows d) of
        None \<Rightarrow> ([], Not_found)
      | Some plan \<Rightarrow> ([], Render_view_meal_plan plan))"

text \<open>
  \<^verbatim>\<open>order_by(MealPlan.created_at.desc())\<close>: the latest first; rows with the same time stamp
  stay in the order of the table (the sort is stable).
\<close>

definition created_key :: "MealPlan \<Rightarrow> int" where
  "created_key p = (case plan_created_at p of None \<Rightarrow> 0 | Some t \<Rightarrow> - int (Suc t))"

definition list_meal_plans :: "int \<Rightarrow> db \<Rightarrow> response" where
  "list_meal_plans uid d =
     ([], Render_list_meal_plans
            (sort_key created_key (filter (\<lambda>p. plan_user_id p = uid) (meal_plan_rows d))))"

subsection \<open>The application\<close>

text \<open>
  A request to one of the routes. \<open>Other_route\<close> stands for each of the fourteen routes whose
  bodies name neither \<^verbatim>\<open>MealPreference\<close> nor \<^verbatim>\<open>MealPlan\<close> (index, register, login, logout,
  questionnaire, dashboard, generate_plan, plan, checkout, log_workout, workout_progress,
  ingredient_recipes, wellness_tip, trial_signup): they leave the two tables as they are.
  The four routes of the pipeline are \<^verbatim>\<open>@login_required\<close>: without a user they answer
  what the login manager answers and do nothing.
\<close>

datatype request =
    Meal_preferences http_method MealPreferenceForm
  | Generate_new_meal_plan
  | View_meal_plan int
  | List_meal_plans
  | Other_route

fun handle :: "env \<Rightarrow> int option \<Rightarrow> request \<Rightarrow> db \<Rightarrow> response \<times> db" where
  "handle E cu Other_route d = (([], Other_page), d)"
| "handle E None req d = (([], Unauthorized), d)"
| "handle E (Some uid) (Meal_preferences m form) d = meal_preferences E uid m form d"
| "handle E (Some uid) Generate_new_meal_plan d = generate_new_meal_plan E uid d"
| "handle E (Some uid) (View_meal_plan pid) d = (view_meal_plan uid pid d, d)"
| "handle E (Some uid) List_meal_plans d = (list_meal_plans uid d, d)"

section \<open>Notions for the statements, and example data\<close>

text \<open>Concrete rows, forms and collaborators, on which the theorems are run.\<close>

definition plan_A :: MealPlan where
  "plan_A = \<lparr>plan_id = Some 1, plan_user_id = 10,
              start_date = \<lparr>year = 2024, month = 1, day = 1\<rparr>,
              end_date = \<lparr>year = 2024, month = 1, day = 3\<rparr>,
              meal_plan_data = Some ''{}'', shopping_list = Some ''{}'',
              plan_created_at = Some 5\<rparr>"

definition db_A :: db where
  "db_A = \<lparr>meal_preference_rows = [], meal_plan_rows = [plan_A]\<rparr>"

text \<open>
  The object \<^verbatim>\<open>preference\<close> of \<^verbatim>\<open>meal_preferences\<close> when the route commits: the object
  \<open>p\<close> it started from with every assignment of the route made, \<open>ex\<close> and \<open>av\<close> being
  the two results of \<^verbatim>\<open>json.dumps\<close>.
\<close>

definition built_preference :: "MealPreferenceForm \<Rightarrow> string \<Rightarrow> string \<Rightarrow> MealPreference \<Rightarrow> MealPreference" where
  "built_preference form ex av p =
     p\<lparr>meal_type := meal_type_data form,
       preferred_time := map_option strftime_HM (preferred_time_data form),
       calories_target := calories_target_data form,
       protein_target := protein_target_data form,
       carbs_target := carbs_target_data form,
       fat_target := fat_target_data form,
       excluded_ingredients := Some ex,
       available_ingredients := Some av,
       preferred_cuisine := preferred_cuisine_data form\<rparr>"

text \<open>A primary key column: every row has a key and no two rows share one.\<close>

definition pk_ok :: "int option list \<Rightarrow> bool" where
  "pk_ok ids = (distinct ids \<and> None \<notin> set ids)"

text \<open>The pair (user, meal type) of a preference row.\<close>

definition pref_key :: "MealPreference \<Rightarrow> int \<times> string option" where
  "pref_key p = (pref_user_id p, meal_type p)"

text \<open>The row \<open>r\<close> holds what the form submitted, in every column the route assigns.\<close>

definition holds_form :: "MealPreferenceForm \<Rightarrow> string \<Rightarrow> string \<Rightarrow> MealPreference \<Rightarrow> bool" where
  "holds_form form ex av r =
     (meal_type r = meal_type_data form \<and>
      preferred_time r = map_option strftime_HM (preferred_time_data form) \<and>
      calories_target r = calories_target_data form \<and>
      protein_target r = protein_target_data form \<and>
      carbs_target r = carbs_target_data form \<and>
      fat_target r = fat_target_data form \<and>
      excluded_ingredients r = Some ex \<and>
      available_ingredients r = Some av \<and>
      preferred_cuisine r = preferred_cuisine_data form)"

text \<open>
  An example serialiser and parser, enough to tell the values of the examples apart, and
  collaborators that succeed.
\<close>

definition dumps_ex :: "json \<Rightarrow> exn + string" where
  "dumps_ex j =
     Inr (case j of
            JArr xs \<Rightarrow> ''['' @ concat (map (\<lambda>x. case x of JStr s \<Rightarrow> s @ '';'' | _ \<Rightarrow> ''?;'') xs) @ '']''
          | JObj kvs \<Rightarrow> ''{'' @ concat (map (\<lambda>kv. fst kv @ '';'') kvs) @ ''}''
          | _ \<Rightarrow> ''?'')"

definition loads_ex :: "string \<Rightarrow> exn + json" where
  "loads_ex s =
     (if s = ''[]'' then Inr (JArr []) else if s = ''null'' then Inr JNull
      else Inl (ValueError ''Expecting value''))"

definition plan_json_ex :: json where
  "plan_json_ex =
     JObj [(''meal_plan'',
            JArr [JObj [(''date'', JStr ''2024-01-01''), (''meals'', JObj [])],
                  JObj [(''date'', JStr ''2024-01-03''), (''meals'', JObj [])]])]"

definition env_ok :: env where
  "env_ok = \<lparr>generate_meal_plan = (\<lambda>p. Inr plan_json_ex),
             generate_shopping_list = (\<lambda>j. Inr (JObj [(''flour'', JStr ''3 cups'')])),
             json_dumps = dumps_ex, json_loads = loads_ex, commit_error = None, utcnow = 100,
             row_choice = 0\<rparr>"

definition form_dinner :: MealPreferenceForm where
  "form_dinner =
     \<lparr>csrf_valid = True, meal_type_data = Some ''dinner'',
      preferred_time_data = Some \<lparr>hour = 19, minute = 5, second = 0\<rparr>,
      calories_target_data = Some 700, protein_target_data = Some 40,
      carbs_target_data = Some 80, fat_target_data = Some 20,
      excluded_ingredients_data = Some '' nuts, ,shellfish '',
      available_ingredients_data = None, preferred_cuisine_data = Some ''any''\<rparr>"

definition form_2500 :: MealPreferenceForm where
  "form_2500 = form_dinner\<lparr>calories_target_data := Some 2500\<rparr>"

definition pref_dinner :: MealPreference where
  "pref_dinner =
     \<lparr>pref_id = Some 1, pref_user_id = 7, meal_type = Some ''dinner'', preferred_time = Some ''18:00'',
      calories_target = Some 600, protein_target = Some 30, carbs_target = Some 70,
      fat_target = Some 25, excluded_ingredients = Some ''[]'', available_ingredients = Some ''[]'',
      preferred_cuisine = Some ''italian'', pref_created_at = Some 1, pref_updated_at = Some 1\<rparr>"

definition db_empty :: db where
  "db_empty = \<lparr>meal_preference_rows = [], meal_plan_rows = []\<rparr>"

definition db_dinner :: db where
  "db_dinner = \<lparr>meal_preference_rows = [pref_dinner], meal_plan_rows = []\<rparr>"

text \<open>\<^verbatim>\<open>sep.join(items)\<close>, to say what \<open>split_on\<close> splits.\<close>

fun join :: "char \<Rightarrow> string list \<Rightarrow> string" where
  "join sep [] = []"
| "join sep [w] = w"
| "join sep (w # v # ws) = w @ sep # join sep (v # ws)"

text \<open>A stored plan whose shopping list column is empty and whose plan column is not.\<close>

definition plan_null :: MealPlan where
  "plan_null = \<lparr>plan_id = Some 3, plan_user_id = 10,
                 start_date = \<lparr>year = 2024, month = 1, day = 1\<rparr>,
                 end_date = \<lparr>year = 2024, month = 1, day = 1\<rparr>,
                 meal_plan_data = Some ''null'', shopping_list = None,
                 plan_created_at = Some 5\<rparr>"

text \<open>The row that \<^verbatim>\<open>generate_new_meal_plan\<close> inserts.\<close>

definition new_plan_row :: "env \<Rightarrow> int \<Rightarrow> db \<Rightarrow> pydate \<Rightarrow> pydate \<Rightarrow> string \<Rightarrow> string \<Rightarrow> MealPlan" where
  "new_plan_row E uid d start_d end_d plan_json list_json =
     \<lparr>plan_id = Some (next_id (map plan_id (meal_plan_rows d))), plan_user_id = uid,
      start_date = start_d, end_date = end_d, meal_plan_data = Some plan_json,
      shopping_list = Some list_json, plan_created_at = Some (utcnow E)\<rparr>"

text \<open>Collaborators that fail: the commit, and the generation service in two ways.\<close>

definition env_commit_fails :: env where
  "env_commit_fails = env_ok\<lparr>commit_error := Some (Raised ''connection lost'')\<rparr>"

text \<open>A generation service whose plan lists its days out of order.\<close>

definition plan_json_unsorted :: json where
  "plan_json_unsorted =
     JObj [(''meal_plan'',
            JArr [JObj [(''date'', JStr ''2024-01-03''), (''meals'', JObj [])],
                  JObj [(''date'', JStr ''2024-01-01''), (''meals'', JObj [])]])]"

definition env_unsorted :: env where
  "env_unsorted = env_ok\<lparr>generate_meal_plan := (\<lambda>p. Inr plan_json_unsorted)\<rparr>"

text \<open>A sequence of requests, each with its user and the behaviour of the collaborators.\<close>

fun handle_all :: "(env \<times> int option \<times> request) list \<Rightarrow> db \<Rightarrow> db" where
  "handle_all [] d = d"
| "handle_all ((E, cu, req) # rs) d = handle_all rs (snd (handle E cu req d))"

text \<open>User 7 has a dinner preference; user 10 has a stored plan.\<close>

definition db_both :: db where
  "db_both = \<lparr>meal_preference_rows = [pref_dinner], meal_plan_rows = [plan_A]\<rparr>"

text \<open>
  Generation services that fail: out of quota, out of reach, and one whose answer has no
  \<^verbatim>\<open>meal_plan\<close> key.
\<close>

definition env_quota :: env where
  "env_quota = env_ok\<lparr>generate_meal_plan := (\<lambda>p. Inl (Raised ''Quota exceeded for organization org-42''))\<rparr>"

definition env_timeout :: env where
  "env_timeout = env_ok\<lparr>generate_meal_plan := (\<lambda>p. Inl (Raised ''Connection timed out''))\<rparr>"

definition env_nokey :: env where
  "env_nokey = env_ok\<lparr>generate_meal_plan := (\<lambda>p. Inr (JObj []))\<rparr>"

text \<open>User 7 with two preference rows, dinner and breakfast.\<close>

definition pref_breakfast :: MealPreference where
  "pref_breakfast = pref_dinner\<lparr>pref_id := Some 2, meal_type := Some ''breakfast'',
                                calories_target := Some 300\<rparr>"

definition db_two :: db where
  "db_two = \<lparr>meal_preference_rows = [pref_dinner, pref_breakfast], meal_plan_rows = []\<rparr>"

text \<open>The answer of \<^verbatim>\<open>generate_new_meal_plan\<close> to the exception \<open>e\<close>.\<close>

definition error_answer :: "exn \<Rightarrow> response" where
  "error_answer e =
     ([(''Error generating meal plan: '' @ str_exn e, ''error'')], Redirect_meal_preferences)"

section \<open>Properties\<close>

subsection \<open>Ownership of plans\<close>

lemma find_plan_owner:
  "find (\<lambda>p. plan_id p = Some pid \<and> plan_user_id p = uid) rows = Some q \<Longrightarrow>
   q \<in> set rows \<and> plan_id q = Some pid \<and> plan_user_id q = uid"
  by (auto simp: find_Some_iff)

lemma distinct_key_unique:
  "distinct (map f xs) \<Longrightarrow> x \<in> set xs \<Longrightarrow> y \<in> set xs \<Longrightarrow> f x = f y \<Longrightarrow> x = y"
  by (meson distinct_map inj_onD)

text \<open>
  Claim C1. A stored plan of user A, asked for by another user B, is answered with "not
  found", the same answer as for a key that no row has; and whatever plan the route shows
  is a stored row with the key asked for and the user who asked. The keys of the table are
  distinct (\<^verbatim>\<open>primary_key=True\<close>).
\<close>

theorem view_meal_plan_ownership:
  "distinct (map plan_id (meal_plan_rows d)) \<Longrightarrow>
   p \<in> set (meal_plan_rows d) \<Longrightarrow> plan_id p = Some pid \<Longrightarrow> plan_user_id p \<noteq> uid \<Longrightarrow>
   Some missing \<notin> plan_id ` set (meal_plan_rows d) \<Longrightarrow>
   view_meal_plan uid pid d = ([], Not_found) \<and>
   view_meal_plan uid pid d = view_meal_plan uid missing d \<and>
   (\<forall>u k fl q. view_meal_plan u k d = (fl, Render_view_meal_plan q) \<longrightarrow>
      q \<in> set (meal_plan_rows d) \<and> plan_id q = Some k \<and> plan_user_id q = u)"
proof (intro conjI allI impI)
  assume dist: "distinct (map plan_id (meal_plan_rows d))"
    and p: "p \<in> set (meal_plan_rows d)" "plan_id p = Some pid" "plan_user_id p \<noteq> uid"
    and miss: "Some missing \<notin> plan_id ` set (meal_plan_rows d)"
  have none: "find (\<lambda>q. plan_id q = Some pid \<and> plan_user_id q = uid) (meal_plan_rows d) = None"
  proof (rule ccontr)
    assume "find (\<lambda>q. plan_id q = Some pid \<and> plan_user_id q = uid) (meal_plan_rows d) \<noteq> None"
    then obtain q where "find (\<lambda>q. plan_id q = Some pid \<and> plan_user_id q = uid) (meal_plan_rows d) = Some q"
      by blast
    then have q: "q \<in> set (meal_plan_rows d)" "plan_id q = Some pid" "plan_user_id q = uid"
      using find_plan_owner by blast+
    then have "q = p" using distinct_key_unique [OF dist _ p(1)] p(2) by simp
    with q p show False by simp
  qed
  then show a: "view_meal_plan uid pid d = ([], Not_found)"
    by (simp add: view_meal_plan_def)
  have "find (\<lambda>q. plan_id q = Some missing \<and> plan_user_id q = uid) (meal_plan_rows d) = None"
    using miss by (force simp: find_None_iff image_iff)
  then show "view_meal_plan uid pid d = view_meal_plan uid missing d"
    using a by (simp add: view_meal_plan_def)
next
  fix u k fl q
  assume "view_meal_plan u k d = (fl, Render_view_meal_plan q)"
  then have "find (\<lambda>p. plan_id p = Some k \<and> plan_user_id p = u) (meal_plan_rows d) = Some q"
    by (auto simp: view_meal_plan_def split: option.splits)
  then have r: "q \<in> set (meal_plan_rows d) \<and> plan_id q = Some k \<and> plan_user_id q = u"
    by (rule find_plan_owner)
  from r show "q \<in> set (meal_plan_rows d)" by simp
  from r show "plan_id q = Some k" by simp
  from r show "plan_user_id q = u" by simp
qed

text \<open>User 20 asks for plan 1 of user 10, and for plan 7, which does not exist.\<close>

theorem view_meal_plan_ownership_witness:
  "view_meal_plan 20 1 db_A = ([], Not_found) \<and>
   view_meal_plan 20 1 db_A = view_meal_plan 20 7 db_A \<and>
   view_meal_plan 10 1 db_A = ([], Render_view_meal_plan plan_A) \<and>
   plan_user_id plan_A = 10"
proof -
  have h1: "distinct (map plan_id (meal_plan_rows db_A))" by (simp add: db_A_def)
  have h2: "plan_A \<in> set (meal_plan_rows db_A)" by (simp add: db_A_def)
  have h3: "plan_id plan_A = Some 1" by (simp add: plan_A_def)
  have h4: "plan_user_id plan_A \<noteq> 20" by (simp add: plan_A_def)
  have h5: "Some 7 \<notin> plan_id ` set (meal_plan_rows db_A)" by (simp add: db_A_def plan_A_def)
  note t = view_meal_plan_ownership [OF h1 h2 h3 h4 h5]
  have a: "view_meal_plan 20 1 db_A = ([], Not_found)" using t by (rule conjunct1)
  have b: "view_meal_plan 20 1 db_A = view_meal_plan 20 7 db_A"
    using t by (elim conjE)
  have c: "view_meal_plan 10 1 db_A = ([], Render_view_meal_plan plan_A)"
    by (simp add: view_meal_plan_def db_A_def plan_A_def)
  have "\<forall>u k fl q. view_meal_plan u k db_A = (fl, Render_view_meal_plan q) \<longrightarrow>
      q \<in> set (meal_plan_rows db_A) \<and> plan_id q = Some k \<and> plan_user_id q = u"
    using t by (elim conjE)
  with c have e: "plan_user_id plan_A = 10" by blast
  from a b c e show ?thesis by (intro conjI)
qed

subsection \<open>What \<^verbatim>\<open>meal_preferences\<close> stores\<close>

lemma query_first_Some: "query_first E P rows = Some p \<Longrightarrow> p \<in> set rows \<and> P p"
proof -
  assume q: "query_first E P rows = Some p"
  then obtain x xs where f: "filter P rows = x # xs"
    and p: "p = (x # xs) ! (row_choice E mod length (x # xs))"
    by (auto simp: query_first_def split: list.splits)
  have "row_choice E mod length (x # xs) < length (x # xs)" by simp
  then have "p \<in> set (x # xs)" unfolding p by (rule nth_mem)
  then have "p \<in> set (filter P rows)" by (simp only: f)
  then show ?thesis by simp
qed

lemma query_first_None: "query_first E P rows = None \<longleftrightarrow> (\<forall>x \<in> set rows. \<not> P x)"
proof -
  have "query_first E P rows = None \<longleftrightarrow> filter P rows = []"
    by (simp add: query_first_def split: list.splits)
  then show ?thesis by (simp add: filter_empty_conv)
qed

lemma bind_exn_Inr: "bind_exn m f = Inr y \<longleftrightarrow> (\<exists>x. m = Inr x \<and> f x = Inr y)"
  by (cases m) (auto simp: bind_exn_def)

lemma session_commit_Inr: "session_commit E x = Inr y \<longleftrightarrow> commit_error E = None \<and> y = x"
  by (auto simp: session_commit_def split: option.splits)

lemma meal_preferences_try_insert:
  assumes "meal_preferences_try E uid form d = Inr d'"
    and "query_first E (\<lambda>p. pref_user_id p = uid \<and> meal_type p = meal_type_data form) (meal_preference_rows d) = None"
  shows "\<exists>ex av.
      json_dumps E (JArr (map JStr (ingredients_list (or_empty (excluded_ingredients_data form))))) = Inr ex \<and>
      json_dumps E (JArr (map JStr (ingredients_list (or_empty (available_ingredients_data form))))) = Inr av \<and>
      commit_error E = None \<and>
      d' = d\<lparr>meal_preference_rows := meal_preference_rows d @
              [(built_preference form ex av (new_MealPreference uid))
                 \<lparr>pref_id := Some (next_id (map pref_id (meal_preference_rows d))),
                  pref_created_at := Some (utcnow E), pref_updated_at := Some (utcnow E)\<rparr>]\<rparr>"
  using assms
  by (auto simp: meal_preferences_try_def Let_def bind_exn_Inr session_commit_Inr
      built_preference_def new_MealPreference_def not_id_def session_add_preference_def
      default_now_def)

lemma meal_preferences_try_update:
  assumes "meal_preferences_try E uid form d = Inr d'"
    and "query_first E (\<lambda>p. pref_user_id p = uid \<and> meal_type p = meal_type_data form) (meal_preference_rows d) = Some p"
    and "pref_id p \<noteq> None"
  shows "\<exists>ex av.
      json_dumps E (JArr (map JStr (ingredients_list (or_empty (excluded_ingredients_data form))))) = Inr ex \<and>
      json_dumps E (JArr (map JStr (ingredients_list (or_empty (available_ingredients_data form))))) = Inr av \<and>
      commit_error E = None \<and>
      d' = d\<lparr>meal_preference_rows :=
              session_dirty_preference (utcnow E) (built_preference form ex av p) (meal_preference_rows d)\<rparr>"
  using assms
  by (auto simp: meal_preferences_try_def Let_def bind_exn_Inr session_commit_Inr
      built_preference_def not_id_def session_add_preference_def)

lemma next_id_fresh: "Some (next_id ids) \<notin> set ids"
proof
  assume "Some (next_id ids) \<in> set ids"
  then have "next_id ids \<in> set (List.map_filter (\<lambda>i. i) ids)"
    by (force simp: List.map_filter_def image_iff)
  then have "next_id ids \<le> Max (set (0 # List.map_filter (\<lambda>i. i) ids))"
    by (intro Max_ge) auto
  also have "\<dots> = fold max (List.map_filter (\<lambda>i. i) ids) 0"
    by (rule Max.set_eq_fold)
  finally show False by (simp add: next_id_def)
qed

lemma find_pref_Some:
  "query_first E (\<lambda>p. pref_user_id p = uid \<and> meal_type p = mt) rows = Some p \<Longrightarrow>
   p \<in> set rows \<and> pref_user_id p = uid \<and> meal_type p = mt"
  by (drule query_first_Some) simp

lemma find_pref_None:
  "query_first E (\<lambda>p. pref_user_id p = uid \<and> meal_type p = mt) rows = None \<Longrightarrow>
   (uid, mt) \<notin> set (map pref_key rows)"
  by (auto simp: query_first_None pref_key_def)

lemma built_preference_id [simp]: "pref_id (built_preference form ex av p) = pref_id p"
  by (simp add: built_preference_def)

lemma built_preference_user [simp]: "pref_user_id (built_preference form ex av p) = pref_user_id p"
  by (simp add: built_preference_def)

lemma built_preference_meal_type [simp]: "meal_type (built_preference form ex av p) = meal_type_data form"
  by (simp add: built_preference_def)

lemma dirty_row:
  assumes "distinct (map pref_id rows)" "p \<in> set rows" "r \<in> set rows"
  shows "(if pref_id r = pref_id (built_preference form ex av p) \<and> r \<noteq> built_preference form ex av p
          then (built_preference form ex av p)\<lparr>pref_updated_at := Some now\<rparr> else r) =
         (if r = p then (if p = built_preference form ex av p then p
                         else (built_preference form ex av p)\<lparr>pref_updated_at := Some now\<rparr>)
          else r)"
  using distinct_key_unique [OF assms(1) assms(3) assms(2)] by auto

lemma filter_map_fixed:
  "(\<And>x. x \<in> set xs \<Longrightarrow> P (f x) = P x) \<Longrightarrow> (\<And>x. x \<in> set xs \<Longrightarrow> P x \<Longrightarrow> f x = x) \<Longrightarrow>
   filter P (map f xs) = filter P xs"
  by (induction xs) auto

lemma dirty_keys:
  assumes "distinct (map pref_id rows)"
    and "query_first E (\<lambda>p. pref_user_id p = uid \<and> meal_type p = meal_type_data form) rows = Some p"
  shows "map pref_key (session_dirty_preference now (built_preference form ex av p) rows) = map pref_key rows"
    and "map pref_id (session_dirty_preference now (built_preference form ex av p) rows) = map pref_id rows"
    and "filter (\<lambda>r. pref_id r \<noteq> pref_id p) (session_dirty_preference now (built_preference form ex av p) rows) =
         filter (\<lambda>r. pref_id r \<noteq> pref_id p) rows"
proof -
  from assms(2) have p: "p \<in> set rows" "pref_user_id p = uid" "meal_type p = meal_type_data form"
    using find_pref_Some by blast+
  let ?b = "built_preference form ex av p"
  let ?f = "\<lambda>r. if pref_id r = pref_id ?b \<and> r \<noteq> ?b then ?b\<lparr>pref_updated_at := Some now\<rparr> else r"
  have f: "\<And>r. r \<in> set rows \<Longrightarrow> ?f r = (if r = p then (if p = ?b then p else ?b\<lparr>pref_updated_at := Some now\<rparr>) else r)"
    by (rule dirty_row [OF assms(1) p(1)])
  have k: "pref_key (?f r) = pref_key r" if "r \<in> set rows" for r
    unfolding f [OF that] using p by (simp add: pref_key_def)
  have i: "pref_id (?f r) = pref_id r" if "r \<in> set rows" for r
    unfolding f [OF that] by simp
  show "map pref_key (session_dirty_preference now ?b rows) = map pref_key rows"
    unfolding session_dirty_preference_def map_map by (rule map_cong [OF refl]) (simp only: o_apply k)
  show "map pref_id (session_dirty_preference now ?b rows) = map pref_id rows"
    unfolding session_dirty_preference_def map_map by (rule map_cong [OF refl]) (simp only: o_apply i)
  show "filter (\<lambda>r. pref_id r \<noteq> pref_id p) (session_dirty_preference now ?b rows) =
         filter (\<lambda>r. pref_id r \<noteq> pref_id p) rows"
    unfolding session_dirty_preference_def
    by (rule filter_map_fixed) (simp_all add: i)
qed

lemma holds_form_built: "holds_form form ex av (built_preference form ex av p)"
  by (simp add: holds_form_def built_preference_def)

lemma holds_form_more:
  "holds_form form ex av r \<Longrightarrow> holds_form form ex av (r\<lparr>pref_updated_at := t\<rparr>)"
  "holds_form form ex av r \<Longrightarrow>
   holds_form form ex av (r\<lparr>pref_id := i, pref_created_at := c, pref_updated_at := t\<rparr>)"
  by (simp_all add: holds_form_def)

lemma stored_preference:
  assumes nn: "None \<notin> set (map pref_id (meal_preference_rows d))"
    and ok: "meal_preferences_try E uid form d = Inr d'"
  shows "\<exists>ex av r.
      json_dumps E (JArr (map JStr (ingredients_list (or_empty (excluded_ingredients_data form))))) = Inr ex \<and>
      json_dumps E (JArr (map JStr (ingredients_list (or_empty (available_ingredients_data form))))) = Inr av \<and>
      r \<in> set (meal_preference_rows d') \<and> pref_user_id r = uid \<and> holds_form form ex av r"
proof (cases "query_first E (\<lambda>p. pref_user_id p = uid \<and> meal_type p = meal_type_data form) (meal_preference_rows d)")
  case None
  from meal_preferences_try_insert [OF ok None] obtain ex av where
    e: "json_dumps E (JArr (map JStr (ingredients_list (or_empty (excluded_ingredients_data form))))) = Inr ex"
      "json_dumps E (JArr (map JStr (ingredients_list (or_empty (available_ingredients_data form))))) = Inr av"
    and d': "d' = d\<lparr>meal_preference_rows := meal_preference_rows d @
              [(built_preference form ex av (new_MealPreference uid))
                 \<lparr>pref_id := Some (next_id (map pref_id (meal_preference_rows d))),
                  pref_created_at := Some (utcnow E), pref_updated_at := Some (utcnow E)\<rparr>]\<rparr>"
    by blast
  let ?r = "(built_preference form ex av (new_MealPreference uid))
                 \<lparr>pref_id := Some (next_id (map pref_id (meal_preference_rows d))),
                  pref_created_at := Some (utcnow E), pref_updated_at := Some (utcnow E)\<rparr>"
  have "?r \<in> set (meal_preference_rows d')" by (simp add: d')
  moreover have "pref_user_id ?r = uid" by (simp add: new_MealPreference_def)
  moreover have "holds_form form ex av ?r" by (intro holds_form_more holds_form_built)
  ultimately show ?thesis using e by blast
next
  case (Some p)
  then have p: "p \<in> set (meal_preference_rows d)" "pref_user_id p = uid"
    using find_pref_Some by blast+
  with nn have "pref_id p \<noteq> None" by force
  from meal_preferences_try_update [OF ok Some this] obtain ex av where
    e: "json_dumps E (JArr (map JStr (ingredients_list (or_empty (excluded_ingredients_data form))))) = Inr ex"
      "json_dumps E (JArr (map JStr (ingredients_list (or_empty (available_ingredients_data form))))) = Inr av"
    and d': "d' = d\<lparr>meal_preference_rows :=
              session_dirty_preference (utcnow E) (built_preference form ex av p) (meal_preference_rows d)\<rparr>"
    by blast
  let ?b = "built_preference form ex av p"
  let ?r = "if p \<noteq> ?b then ?b\<lparr>pref_updated_at := Some (utcnow E)\<rparr> else p"
  have "?r \<in> set (meal_preference_rows d')"
    using p(1) by (force simp: d' session_dirty_preference_def image_iff)
  moreover have "pref_user_id ?r = uid" using p(2) by simp
  moreover have "holds_form form ex av ?r"
    using holds_form_built [of form ex av p] by (auto intro: holds_form_more)
  ultimately show ?thesis using e by blast
qed

lemma meal_preferences_cases:
  assumes "meal_preferences E uid m form d = (resp, d')"
  shows "(snd resp = Redirect_meal_preferences \<and> validate form \<and> m = POST \<and>
          meal_preferences_try E uid form d = Inr d') \<or>
         (snd resp = Render_meal_preferences (user_preferences uid d) \<and> d' = d)"
  using assms
  by (auto simp: meal_preferences_def validate_on_submit_def split: if_splits sum.splits)

lemma validate_form_dinner: "validate form_dinner"
  by (simp add: validate_def form_dinner_def valid_choice_def meal_type_choices_def
      cuisine_choices_def DataRequired_str_def DataRequired_time_def NumberRange_def
      strip_def is_space_def)

lemma ingredients_ex: "ingredients_list '' nuts, ,shellfish '' = [''nuts'', ''shellfish'']"
  by (simp add: ingredients_list_def strip_def is_space_def)

lemma try_dinner_empty:
  "meal_preferences_try env_ok 7 form_dinner db_empty =
   Inr \<lparr>meal_preference_rows =
          [\<lparr>pref_id = Some 1, pref_user_id = 7, meal_type = Some ''dinner'',
            preferred_time = Some ''19:05'', calories_target = Some 700, protein_target = Some 40,
            carbs_target = Some 80, fat_target = Some 20,
            excluded_ingredients = Some ''[nuts;shellfish;]'', available_ingredients = Some ''[]'',
            preferred_cuisine = Some ''any'', pref_created_at = Some 100, pref_updated_at = Some 100\<rparr>],
        meal_plan_rows = []\<rparr>"
  by (simp add: meal_preferences_try_def query_first_def db_empty_def form_dinner_def env_ok_def dumps_ex_def
      ingredients_ex or_empty_def ingredients_list_def [of "[]"] bind_exn_def new_MealPreference_def
      not_id_def session_add_preference_def session_commit_def next_id_def default_now_def
      strftime_HM_def two_digits_def show_nat_digit_def List.map_filter_def strip_def)

text \<open>
  Claim C4. Saving a preference is an upsert. From a table with at most one row per
  (user, meal type), any request to \<^verbatim>\<open>meal_preferences\<close> leaves a table with at most one row
  per pair (and distinct keys), and a request that does not succeed leaves the tables as
  they were. Where a row for the pair exists, the table keeps its keys and its pairs and
  every row with another key is unchanged; after a successful submission the row with the
  key of the existing row holds the submitted values in every column the form fills, with
  its user and its time of creation kept, and is either the row as it was or carries the
  time of the update: the row is updated in place. Where no row for the pair exists, a
  successful submission appends one row, with a new key, that holds the submitted values.
\<close>

theorem meal_preferences_upsert:
  "pk_ok (map pref_id (meal_preference_rows d)) \<Longrightarrow>
   distinct (map pref_key (meal_preference_rows d)) \<Longrightarrow>
   meal_preferences E uid m form d = (resp, d') \<Longrightarrow>
   pk_ok (map pref_id (meal_preference_rows d')) \<and>
   distinct (map pref_key (meal_preference_rows d')) \<and>
   (snd resp \<noteq> Redirect_meal_preferences \<longrightarrow> d' = d) \<and>
   (case query_first E (\<lambda>p. pref_user_id p = uid \<and> meal_type p = meal_type_data form) (meal_preference_rows d) of
      Some p \<Rightarrow>
        map pref_id (meal_preference_rows d') = map pref_id (meal_preference_rows d) \<and>
        map pref_key (meal_preference_rows d') = map pref_key (meal_preference_rows d) \<and>
        filter (\<lambda>r. pref_id r \<noteq> pref_id p) (meal_preference_rows d') =
        filter (\<lambda>r. pref_id r \<noteq> pref_id p) (meal_preference_rows d) \<and>
        (if snd resp = Redirect_meal_preferences
         then \<exists>r ex av.
                r \<in> set (meal_preference_rows d') \<and> pref_id r = pref_id p \<and>
                pref_user_id r = uid \<and> pref_created_at r = pref_created_at p \<and>
                (r = p \<or> pref_updated_at r = Some (utcnow E)) \<and>
                holds_form form ex av r \<and>
                json_dumps E (JArr (map JStr (ingredients_list (or_empty (excluded_ingredients_data form))))) = Inr ex \<and>
                json_dumps E (JArr (map JStr (ingredients_list (or_empty (available_ingredients_data form))))) = Inr av
         else meal_preference_rows d' = meal_preference_rows d)
    | None \<Rightarrow>
        if snd resp = Redirect_meal_preferences
        then \<exists>r ex av.
               meal_preference_rows d' = meal_preference_rows d @ [r] \<and>
               pref_key r = (uid, meal_type_data form) \<and>
               pref_id r = Some (next_id (map pref_id (meal_preference_rows d))) \<and>
               pref_created_at r = Some (utcnow E) \<and> pref_updated_at r = Some (utcnow E) \<and>
               holds_form form ex av r \<and>
               json_dumps E (JArr (map JStr (ingredients_list (or_empty (excluded_ingredients_data form))))) = Inr ex \<and>
               json_dumps E (JArr (map JStr (ingredients_list (or_empty (available_ingredients_data form))))) = Inr av
        else meal_preference_rows d' = meal_preference_rows d)"
proof -
  assume pk: "pk_ok (map pref_id (meal_preference_rows d))"
    and dk: "distinct (map pref_key (meal_preference_rows d))"
    and run: "meal_preferences E uid m form d = (resp, d')"
  let ?rows = "meal_preference_rows d"
  let ?found = "query_first E (\<lambda>p. pref_user_id p = uid \<and> meal_type p = meal_type_data form) ?rows"
  from pk have di: "distinct (map pref_id ?rows)" and nn: "None \<notin> set (map pref_id ?rows)"
    by (simp_all add: pk_ok_def)
  from meal_preferences_cases [OF run] show ?thesis
  proof
    assume "snd resp = Render_meal_preferences (user_preferences uid d) \<and> d' = d"
    then show ?thesis using pk dk by (simp split: option.splits)
  next
    assume ok: "snd resp = Redirect_meal_preferences \<and> validate form \<and> m = POST \<and>
          meal_preferences_try E uid form d = Inr d'"
    then have tr: "meal_preferences_try E uid form d = Inr d'"
      and s: "snd resp = Redirect_meal_preferences" by simp_all
    show ?thesis
    proof (cases ?found)
      case None
      from meal_preferences_try_insert [OF tr None] obtain ex av where
        e: "json_dumps E (JArr (map JStr (ingredients_list (or_empty (excluded_ingredients_data form))))) = Inr ex"
          "json_dumps E (JArr (map JStr (ingredients_list (or_empty (available_ingredients_data form))))) = Inr av"
        and d': "d' = d\<lparr>meal_preference_rows := ?rows @
              [(built_preference form ex av (new_MealPreference uid))
                 \<lparr>pref_id := Some (next_id (map pref_id ?rows)),
                  pref_created_at := Some (utcnow E), pref_updated_at := Some (utcnow E)\<rparr>]\<rparr>"
        by blast
      let ?r = "(built_preference form ex av (new_MealPreference uid))
                 \<lparr>pref_id := Some (next_id (map pref_id ?rows)),
                  pref_created_at := Some (utcnow E), pref_updated_at := Some (utcnow E)\<rparr>"
      have rows': "meal_preference_rows d' = ?rows @ [?r]" by (simp add: d')
      have key: "pref_key ?r = (uid, meal_type_data form)"
        by (simp add: pref_key_def new_MealPreference_def)
      have id: "pref_id ?r = Some (next_id (map pref_id ?rows))"
        "pref_created_at ?r = Some (utcnow E)" "pref_updated_at ?r = Some (utcnow E)" by simp_all
      have hf: "holds_form form ex av ?r" by (intro holds_form_more holds_form_built)
      have a: "pk_ok (map pref_id (meal_preference_rows d'))"
        unfolding rows' using di nn next_id_fresh [of "map pref_id ?rows"]
        by (simp add: pk_ok_def id del: set_map)
      have b: "distinct (map pref_key (meal_preference_rows d'))"
        unfolding rows' using dk find_pref_None [OF None] by (simp add: key del: set_map)
      have c: "\<exists>r ex av.
               meal_preference_rows d' = ?rows @ [r] \<and>
               pref_key r = (uid, meal_type_data form) \<and>
               pref_id r = Some (next_id (map pref_id ?rows)) \<and>
               pref_created_at r = Some (utcnow E) \<and> pref_updated_at r = Some (utcnow E) \<and>
               holds_form form ex av r \<and>
               json_dumps E (JArr (map JStr (ingredients_list (or_empty (excluded_ingredients_data form))))) = Inr ex \<and>
               json_dumps E (JArr (map JStr (ingredients_list (or_empty (available_ingredients_data form))))) = Inr av"
        using rows' key id hf e by blast
      from a b c s show ?thesis unfolding None by simp
    next
      case (Some p)
      then have pin: "p \<in> set ?rows" and pu: "pref_user_id p = uid" using find_pref_Some by blast+
      with nn have "pref_id p \<noteq> None" by force
      from meal_preferences_try_update [OF tr Some this] obtain ex av where
        e: "json_dumps E (JArr (map JStr (ingredients_list (or_empty (excluded_ingredients_data form))))) = Inr ex"
          "json_dumps E (JArr (map JStr (ingredients_list (or_empty (available_ingredients_data form))))) = Inr av"
        and d': "d' = d\<lparr>meal_preference_rows :=
              session_dirty_preference (utcnow E) (built_preference form ex av p) ?rows\<rparr>"
        by blast
      let ?b = "built_preference form ex av p"
      let ?r = "if p \<noteq> ?b then ?b\<lparr>pref_updated_at := Some (utcnow E)\<rparr> else p"
      have rows': "meal_preference_rows d' = session_dirty_preference (utcnow E) ?b ?rows"
        by (simp add: d')
      have r1: "?r \<in> set (meal_preference_rows d')"
        using pin by (force simp: rows' session_dirty_preference_def image_iff)
      have r2: "pref_id ?r = pref_id p" "pref_user_id ?r = uid" "pref_created_at ?r = pref_created_at p"
        using pu by (simp_all add: built_preference_def)
      have r3: "?r = p \<or> pref_updated_at ?r = Some (utcnow E)" by simp
      have r4: "holds_form form ex av ?r"
        using holds_form_built [of form ex av p] by (auto intro: holds_form_more)
      have c: "\<exists>r ex av.
                r \<in> set (meal_preference_rows d') \<and> pref_id r = pref_id p \<and>
                pref_user_id r = uid \<and> pref_created_at r = pref_created_at p \<and>
                (r = p \<or> pref_updated_at r = Some (utcnow E)) \<and>
                holds_form form ex av r \<and>
                json_dumps E (JArr (map JStr (ingredients_list (or_empty (excluded_ingredients_data form))))) = Inr ex \<and>
                json_dumps E (JArr (map JStr (ingredients_list (or_empty (available_ingredients_data form))))) = Inr av"
        using r1 r2 r3 r4 e by blast
      note k = dirty_keys [OF di Some, of "utcnow E" ex av]
      have a: "pk_ok (map pref_id (meal_preference_rows d'))" using pk k by (simp add: rows')
      have b: "distinct (map pref_key (meal_preference_rows d'))" using dk k by (simp add: rows')
      from a b c k s show ?thesis unfolding Some by (simp add: rows')
    qed
  qed
qed

subsection \<open>Splitting and stripping\<close>

lemma split_on_not_Nil: "split_on c s \<noteq> []"
  by (induction s) (auto split: list.splits)


lemma join_split_on: "join c (split_on c s) = s"
proof (induction s)
  case Nil
  show ?case by simp
next
  case (Cons x xs)
  obtain w ws where w: "split_on c xs = w # ws"
    using split_on_not_Nil [of c xs] by (cases "split_on c xs") auto
  with Cons show ?case by (cases ws) auto
qed

lemma length_split_on: "length (split_on c s) = Suc (count_list s c)"
  by (induction s) (auto split: list.splits simp: split_on_not_Nil)





subsection \<open>The upsert, the range check and the ingredient lists on examples\<close>

lemma run_dinner_empty:
  "meal_preferences env_ok 7 POST form_dinner db_empty =
   (([(''Meal preferences updated successfully!'', ''success'')], Redirect_meal_preferences),
    \<lparr>meal_preference_rows =
          [\<lparr>pref_id = Some 1, pref_user_id = 7, meal_type = Some ''dinner'',
            preferred_time = Some ''19:05'', calories_target = Some 700, protein_target = Some 40,
            carbs_target = Some 80, fat_target = Some 20,
            excluded_ingredients = Some ''[nuts;shellfish;]'', available_ingredients = Some ''[]'',
            preferred_cuisine = Some ''any'', pref_created_at = Some 100, pref_updated_at = Some 100\<rparr>],
        meal_plan_rows = []\<rparr>)"
  by (simp add: meal_preferences_def validate_on_submit_def validate_form_dinner try_dinner_empty)

lemma run_dinner_update:
  "meal_preferences env_ok 7 POST form_dinner db_dinner =
   (([(''Meal preferences updated successfully!'', ''success'')], Redirect_meal_preferences),
    \<lparr>meal_preference_rows =
          [\<lparr>pref_id = Some 1, pref_user_id = 7, meal_type = Some ''dinner'',
            preferred_time = Some ''19:05'', calories_target = Some 700, protein_target = Some 40,
            carbs_target = Some 80, fat_target = Some 20,
            excluded_ingredients = Some ''[nuts;shellfish;]'', available_ingredients = Some ''[]'',
            preferred_cuisine = Some ''any'', pref_created_at = Some 1, pref_updated_at = Some 100\<rparr>],
        meal_plan_rows = []\<rparr>)"
proof -
  have "meal_preferences_try env_ok 7 form_dinner db_dinner =
    Inr \<lparr>meal_preference_rows =
          [\<lparr>pref_id = Some 1, pref_user_id = 7, meal_type = Some ''dinner'',
            preferred_time = Some ''19:05'', calories_target = Some 700, protein_target = Some 40,
            carbs_target = Some 80, fat_target = Some 20,
            excluded_ingredients = Some ''[nuts;shellfish;]'', available_ingredients = Some ''[]'',
            preferred_cuisine = Some ''any'', pref_created_at = Some 1, pref_updated_at = Some 100\<rparr>],
        meal_plan_rows = []\<rparr>"
    by (simp add: meal_preferences_try_def query_first_def db_dinner_def pref_dinner_def form_dinner_def
        env_ok_def dumps_ex_def ingredients_ex or_empty_def ingredients_list_def [of "[]"] bind_exn_def
        not_id_def session_add_preference_def session_dirty_preference_def session_commit_def
        strftime_HM_def two_digits_def show_nat_digit_def strip_def)
  then show ?thesis
    by (simp add: meal_preferences_def validate_on_submit_def validate_form_dinner)
qed

text \<open>
  User 7 has a dinner row with 600 calories, created at time 1, and submits the dinner form
  with 700 calories: the table still has one row, with key 1, and the row holds what was
  submitted.
\<close>

theorem meal_preferences_upsert_witness:
  "pk_ok (map pref_id (meal_preference_rows db_dinner)) \<and>
   distinct (map pref_key (meal_preference_rows db_dinner)) \<and>
   map calories_target (meal_preference_rows db_dinner) = [Some 600] \<and>
   snd (fst (meal_preferences env_ok 7 POST form_dinner db_dinner)) = Redirect_meal_preferences \<and>
   distinct (map pref_key (meal_preference_rows (snd (meal_preferences env_ok 7 POST form_dinner db_dinner)))) \<and>
   map pref_id (meal_preference_rows (snd (meal_preferences env_ok 7 POST form_dinner db_dinner))) = [Some 1] \<and>
   map calories_target (meal_preference_rows (snd (meal_preferences env_ok 7 POST form_dinner db_dinner))) = [Some 700] \<and>
   map preferred_time (meal_preference_rows (snd (meal_preferences env_ok 7 POST form_dinner db_dinner))) = [Some ''19:05''] \<and>
   map pref_created_at (meal_preference_rows (snd (meal_preferences env_ok 7 POST form_dinner db_dinner))) = [Some 1]"
proof -
  let ?run = "meal_preferences env_ok 7 POST form_dinner db_dinner"
  let ?rows' = "meal_preference_rows (snd ?run)"
  have h1: "pk_ok (map pref_id (meal_preference_rows db_dinner))"
    by (simp add: pk_ok_def db_dinner_def pref_dinner_def)
  have h2: "distinct (map pref_key (meal_preference_rows db_dinner))"
    by (simp add: db_dinner_def)
  have h3: "?run = (fst ?run, snd ?run)" by simp
  have old: "map calories_target (meal_preference_rows db_dinner) = [Some 600]"
    by (simp add: db_dinner_def pref_dinner_def)
  have f: "query_first env_ok (\<lambda>p. pref_user_id p = 7 \<and> meal_type p = meal_type_data form_dinner)
             (meal_preference_rows db_dinner) = Some pref_dinner"
    by (simp add: query_first_def db_dinner_def pref_dinner_def form_dinner_def)
  have s: "snd (fst ?run) = Redirect_meal_preferences" by (simp add: run_dinner_update)
  note t = meal_preferences_upsert [OF h1 h2 h3]
  from t have a: "distinct (map pref_key ?rows')" by (elim conjE)
  from t have u: "map pref_id ?rows' = map pref_id (meal_preference_rows db_dinner) \<and>
        map pref_key ?rows' = map pref_key (meal_preference_rows db_dinner) \<and>
        filter (\<lambda>r. pref_id r \<noteq> pref_id pref_dinner) ?rows' =
        filter (\<lambda>r. pref_id r \<noteq> pref_id pref_dinner) (meal_preference_rows db_dinner) \<and>
        (\<exists>r ex av.
                r \<in> set ?rows' \<and> pref_id r = pref_id pref_dinner \<and>
                pref_user_id r = 7 \<and> pref_created_at r = pref_created_at pref_dinner \<and>
                (r = pref_dinner \<or> pref_updated_at r = Some (utcnow env_ok)) \<and>
                holds_form form_dinner ex av r \<and>
                json_dumps env_ok (JArr (map JStr (ingredients_list (or_empty (excluded_ingredients_data form_dinner))))) = Inr ex \<and>
                json_dumps env_ok (JArr (map JStr (ingredients_list (or_empty (available_ingredients_data form_dinner))))) = Inr av)"
    unfolding f using s by simp
  then have b: "map pref_id ?rows' = [Some 1]"
    by (simp add: db_dinner_def pref_dinner_def)
  from u obtain r ex av where r: "r \<in> set ?rows'" "pref_created_at r = pref_created_at pref_dinner"
    "holds_form form_dinner ex av r" by blast
  from b obtain x where x: "?rows' = [x]" by (cases ?rows') auto
  with r(1) have rx: "x = r" by simp
  from r(3) have v: "calories_target r = Some 700" "preferred_time r = Some ''19:05''"
    by (simp_all add: holds_form_def form_dinner_def strftime_HM_def two_digits_def show_nat_digit_def)
  have c: "map calories_target ?rows' = [Some 700]" "map preferred_time ?rows' = [Some ''19:05'']"
    "map pref_created_at ?rows' = [Some 1]"
    using v r(2) by (simp_all add: x rx pref_dinner_def)
  from h1 h2 old s a b c show ?thesis by (intro conjI)
qed

text \<open>
  Claim C5 as stated fails: a dinner preference with 2500 calories is not stored as 2000.
  The form does not validate, the page is shown again and nothing is stored.
\<close>

theorem out_of_range_not_clamped:
  "meal_preferences env_ok 7 POST form_2500 db_empty = (([], Render_meal_preferences []), db_empty) \<and>
   meal_type_data form_2500 = Some ''dinner'' \<and> calories_target_data form_2500 = Some 2500 \<and>
   meal_preference_rows db_empty = []"
  by (simp add: meal_preferences_def validate_on_submit_def validate_def form_2500_def
      form_dinner_def NumberRange_def user_preferences_def db_empty_def)

text \<open>
  Claim C5, amended. A macro value out of its range (calories 0..2000, protein 0..200,
  carbs 0..300, fat 0..100), or missing, is rejected: the request stores nothing and shows
  the form again. When the four values are in range and the submission succeeds, the
  stored row of the user and meal type holds exactly the values submitted.
\<close>

theorem meal_preferences_range_checked:
  "None \<notin> set (map pref_id (meal_preference_rows d)) \<Longrightarrow>
   meal_preferences E uid m form d = (resp, d') \<Longrightarrow>
   (if NumberRange 0 2000 (calories_target_data form) \<and> NumberRange 0 200 (protein_target_data form) \<and>
       NumberRange 0 300 (carbs_target_data form) \<and> NumberRange 0 100 (fat_target_data form)
    then snd resp = Redirect_meal_preferences \<longrightarrow>
         (\<exists>r \<in> set (meal_preference_rows d').
            pref_user_id r = uid \<and> meal_type r = meal_type_data form \<and>
            calories_target r = calories_target_data form \<and>
            protein_target r = protein_target_data form \<and>
            carbs_target r = carbs_target_data form \<and>
            fat_target r = fat_target_data form)
    else d' = d \<and> resp = ([], Render_meal_preferences (user_preferences uid d)))"
proof -
  assume nn: "None \<notin> set (map pref_id (meal_preference_rows d))"
    and run: "meal_preferences E uid m form d = (resp, d')"
  show ?thesis
  proof (cases "NumberRange 0 2000 (calories_target_data form) \<and> NumberRange 0 200 (protein_target_data form) \<and>
       NumberRange 0 300 (carbs_target_data form) \<and> NumberRange 0 100 (fat_target_data form)")
    case False
    then have "\<not> validate_on_submit m form" by (auto simp: validate_on_submit_def validate_def)
    with run have "d' = d \<and> resp = ([], Render_meal_preferences (user_preferences uid d))"
      by (auto simp: meal_preferences_def)
    then show ?thesis unfolding if_not_P [OF False] .
  next
    case True
    have "\<exists>r \<in> set (meal_preference_rows d').
            pref_user_id r = uid \<and> meal_type r = meal_type_data form \<and>
            calories_target r = calories_target_data form \<and>
            protein_target r = protein_target_data form \<and>
            carbs_target r = carbs_target_data form \<and>
            fat_target r = fat_target_data form"
      if s: "snd resp = Redirect_meal_preferences"
    proof -
      from meal_preferences_cases [OF run] s have "meal_preferences_try E uid form d = Inr d'" by auto
      from stored_preference [OF nn this] show ?thesis by (auto simp: holds_form_def)
    qed
    then show ?thesis unfolding if_P [OF True] by blast
  qed
qed

text \<open>The dinner form with 700 calories, on an empty table.\<close>

theorem meal_preferences_range_checked_witness:
  "None \<notin> set (map pref_id (meal_preference_rows db_empty)) \<and>
   NumberRange 0 2000 (calories_target_data form_dinner) \<and>
   snd (fst (meal_preferences env_ok 7 POST form_dinner db_empty)) = Redirect_meal_preferences \<and>
   (\<exists>r \<in> set (meal_preference_rows (snd (meal_preferences env_ok 7 POST form_dinner db_empty))).
      pref_user_id r = 7 \<and> meal_type r = Some ''dinner'' \<and> calories_target r = Some 700)"
proof -
  let ?run = "meal_preferences env_ok 7 POST form_dinner db_empty"
  have h1: "None \<notin> set (map pref_id (meal_preference_rows db_empty))" by (simp add: db_empty_def)
  have h2: "?run = (fst ?run, snd ?run)" by simp
  have r: "NumberRange 0 2000 (calories_target_data form_dinner) \<and> NumberRange 0 200 (protein_target_data form_dinner) \<and>
       NumberRange 0 300 (carbs_target_data form_dinner) \<and> NumberRange 0 100 (fat_target_data form_dinner)"
    by (simp add: NumberRange_def form_dinner_def)
  have s: "snd (fst ?run) = Redirect_meal_preferences" by (simp add: run_dinner_empty)
  note t = meal_preferences_range_checked [OF h1 h2, unfolded if_P [OF r]]
  from t s have "\<exists>r \<in> set (meal_preference_rows (snd ?run)).
            pref_user_id r = 7 \<and> meal_type r = meal_type_data form_dinner \<and>
            calories_target r = calories_target_data form_dinner \<and>
            protein_target r = protein_target_data form_dinner \<and>
            carbs_target r = carbs_target_data form_dinner \<and>
            fat_target r = fat_target_data form_dinner"
    by blast
  then have e: "\<exists>r \<in> set (meal_preference_rows (snd ?run)).
      pref_user_id r = 7 \<and> meal_type r = Some ''dinner'' \<and> calories_target r = Some 700"
    by (auto simp: form_dinner_def)
  from h1 r s e show ?thesis by blast
qed

subsection \<open>The ingredient lists\<close>



subsection \<open>The accessors of a stored plan\<close>

text \<open>
  Claim C8. \<^verbatim>\<open>get_meal_plan\<close> answers the empty mapping when the column
  \<^verbatim>\<open>meal_plan_data\<close> is \<open>None\<close> or the empty string, and otherwise what \<^verbatim>\<open>json.loads\<close>
  answers for the column (the decoded value, or its exception when the text is not JSON);
  \<^verbatim>\<open>get_shopping_list\<close> does the same for the column \<^verbatim>\<open>shopping_list\<close>.
\<close>

theorem accessors_empty_or_decoded:
  "(meal_plan_data p = None \<or> meal_plan_data p = Some [] \<longrightarrow> get_meal_plan E p = Inr (JObj [])) \<and>
   (\<forall>s. meal_plan_data p = Some s \<and> s \<noteq> [] \<longrightarrow> get_meal_plan E p = json_loads E s) \<and>
   (shopping_list p = None \<or> shopping_list p = Some [] \<longrightarrow> get_shopping_list E p = Inr (JObj [])) \<and>
   (\<forall>s. shopping_list p = Some s \<and> s \<noteq> [] \<longrightarrow> get_shopping_list E p = json_loads E s)"
  by (auto simp: get_meal_plan_def get_shopping_list_def)

text \<open>A plan whose plan column holds \<^verbatim>\<open>null\<close> and whose shopping list column is \<open>None\<close>.\<close>

theorem accessors_empty_or_decoded_witness:
  "shopping_list plan_null = None \<and> get_shopping_list env_ok plan_null = Inr (JObj []) \<and>
   meal_plan_data plan_null = Some ''null'' \<and> get_meal_plan env_ok plan_null = Inr JNull"
proof -
  note t = accessors_empty_or_decoded [of plan_null env_ok]
  have a: "shopping_list plan_null = None" by (simp add: plan_null_def)
  have b: "meal_plan_data plan_null = Some ''null''" by (simp add: plan_null_def)
  from t a have c: "get_shopping_list env_ok plan_null = Inr (JObj [])" by blast
  from t b have "get_meal_plan env_ok plan_null = json_loads env_ok ''null''" by auto
  then have d: "get_meal_plan env_ok plan_null = Inr JNull"
    by (simp add: env_ok_def loads_ex_def)
  from a b c d show ?thesis by (intro conjI)
qed

subsection \<open>What \<^verbatim>\<open>generate_new_meal_plan\<close> does\<close>

lemma bind_exn_Inl: "bind_exn m f = Inl e \<longleftrightarrow> m = Inl e \<or> (\<exists>x. m = Inr x \<and> f x = Inl e)"
  by (cases m) (auto simp: bind_exn_def)

lemma generate_try_None:
  "query_first E (\<lambda>p. pref_user_id p = uid) (meal_preference_rows d) = None \<Longrightarrow>
   generate_new_meal_plan_try E uid d =
   Inr (([(''Please set your meal preferences first'', ''warning'')], Redirect_meal_preferences), d)"
  by (simp add: generate_new_meal_plan_try_def)

lemma generate_try_Some_Inr:
  assumes "query_first E (\<lambda>p. pref_user_id p = uid) (meal_preference_rows d) = Some prefs"
  shows "generate_new_meal_plan_try E uid d = Inr (resp, d') \<longleftrightarrow>
     (\<exists>plan_data list_data start_d end_d plan_json list_json.
        generate_meal_plan E prefs = Inr plan_data \<and>
        generate_shopping_list E plan_data = Inr list_data \<and>
        entry_date plan_data 0 = Inr start_d \<and>
        entry_date plan_data (- 1) = Inr end_d \<and>
        json_dumps E plan_data = Inr plan_json \<and>
        json_dumps E list_data = Inr list_json \<and>
        commit_error E = None \<and>
        d' = d\<lparr>meal_plan_rows := meal_plan_rows d @ [new_plan_row E uid d start_d end_d plan_json list_json]\<rparr> \<and>
        resp = ([(''Your personalized meal plan has been generated!'', ''success'')],
                Redirect_view_meal_plan (Some (next_id (map plan_id (meal_plan_rows d))))))"
  by (auto simp: generate_new_meal_plan_try_def assms bind_exn_Inr session_commit_Inr
      session_add_plan_def default_now_def new_plan_row_def Let_def)

lemma generate_try_Some_Inl:
  assumes "query_first E (\<lambda>p. pref_user_id p = uid) (meal_preference_rows d) = Some prefs"
  shows "generate_new_meal_plan_try E uid d = Inl e \<longleftrightarrow>
     generate_meal_plan E prefs = Inl e \<or>
     (\<exists>plan_data. generate_meal_plan E prefs = Inr plan_data \<and>
        (generate_shopping_list E plan_data = Inl e \<or>
         (\<exists>list_data. generate_shopping_list E plan_data = Inr list_data \<and>
            (entry_date plan_data 0 = Inl e \<or>
             (\<exists>start_d. entry_date plan_data 0 = Inr start_d \<and>
                (entry_date plan_data (- 1) = Inl e \<or>
                 (\<exists>end_d. entry_date plan_data (- 1) = Inr end_d \<and>
                    (json_dumps E plan_data = Inl e \<or>
                     (\<exists>plan_json. json_dumps E plan_data = Inr plan_json \<and>
                        (json_dumps E list_data = Inl e \<or>
                         (\<exists>list_json. json_dumps E list_data = Inr list_json \<and>
                            commit_error E = Some e)))))))))))"
  by (auto simp: generate_new_meal_plan_try_def assms bind_exn_Inl bind_exn_Inr session_commit_def
      session_add_plan_def Let_def split: option.splits)

lemma generate_cases:
  assumes "generate_new_meal_plan E uid d = (resp, d')"
  shows "(d' = d \<and> snd resp = Redirect_meal_preferences \<and>
          (query_first E (\<lambda>p. pref_user_id p = uid) (meal_preference_rows d) = None \<and>
             resp = ([(''Please set your meal preferences first'', ''warning'')], Redirect_meal_preferences) \<or>
           (\<exists>prefs e. query_first E (\<lambda>p. pref_user_id p = uid) (meal_preference_rows d) = Some prefs \<and>
             generate_new_meal_plan_try E uid d = Inl e \<and>
             resp = ([(''Error generating meal plan: '' @ str_exn e, ''error'')], Redirect_meal_preferences)))) \<or>
         (\<exists>prefs plan_data list_data start_d end_d plan_json list_json.
            query_first E (\<lambda>p. pref_user_id p = uid) (meal_preference_rows d) = Some prefs \<and>
            generate_meal_plan E prefs = Inr plan_data \<and>
            generate_shopping_list E plan_data = Inr list_data \<and>
            entry_date plan_data 0 = Inr start_d \<and>
            entry_date plan_data (- 1) = Inr end_d \<and>
            json_dumps E plan_data = Inr plan_json \<and>
            json_dumps E list_data = Inr list_json \<and>
            commit_error E = None \<and>
            d' = d\<lparr>meal_plan_rows := meal_plan_rows d @ [new_plan_row E uid d start_d end_d plan_json list_json]\<rparr> \<and>
            resp = ([(''Your personalized meal plan has been generated!'', ''success'')],
                    Redirect_view_meal_plan (Some (next_id (map plan_id (meal_plan_rows d))))))"
proof (cases "query_first E (\<lambda>p. pref_user_id p = uid) (meal_preference_rows d)")
  case None
  with assms show ?thesis
    by (auto simp: generate_new_meal_plan_def generate_try_None)
next
  case (Some prefs)
  show ?thesis
  proof (cases "generate_new_meal_plan_try E uid d")
    case (Inl e)
    with assms Some show ?thesis by (auto simp: generate_new_meal_plan_def)
  next
    case (Inr r)
    with assms have "generate_new_meal_plan_try E uid d = Inr (resp, d')"
      by (simp add: generate_new_meal_plan_def)
    then show ?thesis using Some unfolding generate_try_Some_Inr [OF Some] by blast
  qed
qed

lemma entry_dates_ex:
  "entry_date plan_json_ex 0 = Inr \<lparr>year = 2024, month = 1, day = 1\<rparr>"
  "entry_date plan_json_ex (- 1) = Inr \<lparr>year = 2024, month = 1, day = 3\<rparr>"
  by (simp_all add: entry_date_def day_entry_date_def plan_json_ex_def bind_exn_def seq_index_def
      strptime_date_def ymd_match_def match_year_def after_dash_def month_alts_def
      day_alts_def is_digit_def digit_val_def in_range_def days_in_month_def is_leap_def)

lemma run_generate_ok:
  "generate_new_meal_plan env_ok 7 db_dinner =
   (([(''Your personalized meal plan has been generated!'', ''success'')], Redirect_view_meal_plan (Some 1)),
    \<lparr>meal_preference_rows = [pref_dinner],
     meal_plan_rows =
       [\<lparr>plan_id = Some 1, plan_user_id = 7,
         start_date = \<lparr>year = 2024, month = 1, day = 1\<rparr>,
         end_date = \<lparr>year = 2024, month = 1, day = 3\<rparr>,
         meal_plan_data = Some ''{meal_plan;}'', shopping_list = Some ''{flour;}'',
         plan_created_at = Some 100\<rparr>]\<rparr>)"
proof -
  have f: "query_first env_ok (\<lambda>p. pref_user_id p = 7) (meal_preference_rows db_dinner) = Some pref_dinner"
    by (simp add: query_first_def db_dinner_def pref_dinner_def)
  have g: "generate_meal_plan env_ok pref_dinner = Inr plan_json_ex"
    "generate_shopping_list env_ok plan_json_ex = Inr (JObj [(''flour'', JStr ''3 cups'')])"
    "json_dumps env_ok plan_json_ex = Inr ''{meal_plan;}''"
    "json_dumps env_ok (JObj [(''flour'', JStr ''3 cups'')]) = Inr ''{flour;}''"
    "commit_error env_ok = None" "utcnow env_ok = 100"
    by (simp_all add: env_ok_def dumps_ex_def plan_json_ex_def)
  have "generate_new_meal_plan_try env_ok 7 db_dinner =
    Inr (([(''Your personalized meal plan has been generated!'', ''success'')], Redirect_view_meal_plan (Some 1)),
    \<lparr>meal_preference_rows = [pref_dinner],
     meal_plan_rows =
       [\<lparr>plan_id = Some 1, plan_user_id = 7,
         start_date = \<lparr>year = 2024, month = 1, day = 1\<rparr>,
         end_date = \<lparr>year = 2024, month = 1, day = 3\<rparr>,
         meal_plan_data = Some ''{meal_plan;}'', shopping_list = Some ''{flour;}'',
         plan_created_at = Some 100\<rparr>]\<rparr>)"
    unfolding generate_try_Some_Inr [OF f]
    by (simp add: g entry_dates_ex new_plan_row_def db_dinner_def next_id_def List.map_filter_def)
  then show ?thesis by (simp add: generate_new_meal_plan_def)
qed

subsection \<open>Atomic saving\<close>

text \<open>
  Claim C2. A request to \<^verbatim>\<open>generate_new_meal_plan\<close> either leaves the stored tables as they
  were and answers with the redirect of a failure, or appends exactly one plan row, which
  holds both the serialised plan and the serialised shopping list derived from that plan,
  written by one commit. The preference rows never change. When a stage fails (the
  generation, the derivation of the list, the parsing of the first or last date, the
  serialisation, the commit) the stored tables are unchanged.
\<close>

theorem generate_new_meal_plan_atomic:
  "generate_new_meal_plan E uid d = (resp, d') \<Longrightarrow>
   meal_preference_rows d' = meal_preference_rows d \<and>
   (d' = d \<and> snd resp = Redirect_meal_preferences \<or>
    (\<exists>p prefs plan_data list_data plan_json list_json.
        meal_plan_rows d' = meal_plan_rows d @ [p] \<and>
        generate_meal_plan E prefs = Inr plan_data \<and>
        generate_shopping_list E plan_data = Inr list_data \<and>
        json_dumps E plan_data = Inr plan_json \<and> json_dumps E list_data = Inr list_json \<and>
        meal_plan_data p = Some plan_json \<and> shopping_list p = Some list_json \<and>
        commit_error E = None \<and> snd resp = Redirect_view_meal_plan (plan_id p))) \<and>
   (snd resp = Redirect_meal_preferences \<longrightarrow> d' = d) \<and>
   (commit_error E \<noteq> None \<longrightarrow> d' = d) \<and>
   (\<forall>prefs. query_first E (\<lambda>p. pref_user_id p = uid) (meal_preference_rows d) = Some prefs \<longrightarrow>
      (\<forall>e. generate_meal_plan E prefs = Inl e \<longrightarrow> d' = d) \<and>
      (\<forall>plan_data e. generate_meal_plan E prefs = Inr plan_data \<and>
           (generate_shopping_list E plan_data = Inl e \<or> entry_date plan_data 0 = Inl e \<or>
            entry_date plan_data (- 1) = Inl e \<or> json_dumps E plan_data = Inl e) \<longrightarrow> d' = d))"
proof -
  assume run: "generate_new_meal_plan E uid d = (resp, d')"
  from generate_cases [OF run] consider
    (same) "d' = d" "snd resp = Redirect_meal_preferences"
  | (stored) prefs plan_data list_data start_d end_d plan_json list_json where
      "query_first E (\<lambda>p. pref_user_id p = uid) (meal_preference_rows d) = Some prefs"
      "generate_meal_plan E prefs = Inr plan_data"
      "generate_shopping_list E plan_data = Inr list_data"
      "entry_date plan_data 0 = Inr start_d" "entry_date plan_data (- 1) = Inr end_d"
      "json_dumps E plan_data = Inr plan_json" "json_dumps E list_data = Inr list_json"
      "commit_error E = None"
      "d' = d\<lparr>meal_plan_rows := meal_plan_rows d @ [new_plan_row E uid d start_d end_d plan_json list_json]\<rparr>"
      "resp = ([(''Your personalized meal plan has been generated!'', ''success'')],
                    Redirect_view_meal_plan (Some (next_id (map plan_id (meal_plan_rows d)))))"
    by blast
  then show ?thesis
  proof cases
    case same
    then show ?thesis by simp
  next
    case stored
    note f = stored(1) and g = stored(2-8) and d' = stored(9) and r = stored(10)
    let ?p = "new_plan_row E uid d start_d end_d plan_json list_json"
    have a: "meal_preference_rows d' = meal_preference_rows d" by (simp add: d')
    have "meal_plan_rows d' = meal_plan_rows d @ [?p] \<and>
        generate_meal_plan E prefs = Inr plan_data \<and>
        generate_shopping_list E plan_data = Inr list_data \<and>
        json_dumps E plan_data = Inr plan_json \<and> json_dumps E list_data = Inr list_json \<and>
        meal_plan_data ?p = Some plan_json \<and> shopping_list ?p = Some list_json \<and>
        commit_error E = None \<and> snd resp = Redirect_view_meal_plan (plan_id ?p)"
      using g by (simp add: d' r new_plan_row_def)
    then have b: "\<exists>p prefs plan_data list_data plan_json list_json.
        meal_plan_rows d' = meal_plan_rows d @ [p] \<and>
        generate_meal_plan E prefs = Inr plan_data \<and>
        generate_shopping_list E plan_data = Inr list_data \<and>
        json_dumps E plan_data = Inr plan_json \<and> json_dumps E list_data = Inr list_json \<and>
        meal_plan_data p = Some plan_json \<and> shopping_list p = Some list_json \<and>
        commit_error E = None \<and> snd resp = Redirect_view_meal_plan (plan_id p)"
      by blast
    have c: "snd resp \<noteq> Redirect_meal_preferences" by (simp add: r)
    have e: "\<forall>prefs. query_first E (\<lambda>p. pref_user_id p = uid) (meal_preference_rows d) = Some prefs \<longrightarrow>
      (\<forall>e. generate_meal_plan E prefs = Inl e \<longrightarrow> d' = d) \<and>
      (\<forall>plan_data e. generate_meal_plan E prefs = Inr plan_data \<and>
           (generate_shopping_list E plan_data = Inl e \<or> entry_date plan_data 0 = Inl e \<or>
            entry_date plan_data (- 1) = Inl e \<or> json_dumps E plan_data = Inl e) \<longrightarrow> d' = d)"
      using f g by auto
    from a b c e g(7) show ?thesis by blast
  qed
qed

text \<open>
  User 7 has a dinner preference. With collaborators that succeed one row is stored, with
  both columns; when the commit fails nothing is stored.
\<close>

theorem generate_new_meal_plan_atomic_witness:
  "commit_error env_commit_fails \<noteq> None \<and>
   snd (generate_new_meal_plan env_commit_fails 7 db_dinner) = db_dinner \<and>
   meal_preference_rows (snd (generate_new_meal_plan env_ok 7 db_dinner)) = meal_preference_rows db_dinner \<and>
   map meal_plan_data (meal_plan_rows (snd (generate_new_meal_plan env_ok 7 db_dinner))) = [Some ''{meal_plan;}''] \<and>
   map shopping_list (meal_plan_rows (snd (generate_new_meal_plan env_ok 7 db_dinner))) = [Some ''{flour;}'']"
proof -
  let ?bad = "generate_new_meal_plan env_commit_fails 7 db_dinner"
  let ?good = "generate_new_meal_plan env_ok 7 db_dinner"
  have h: "?bad = (fst ?bad, snd ?bad)" by simp
  have k: "?good = (fst ?good, snd ?good)" by simp
  have a: "commit_error env_commit_fails \<noteq> None" by (simp add: env_commit_fails_def)
  from generate_new_meal_plan_atomic [OF h] a have b: "snd ?bad = db_dinner" by blast
  from generate_new_meal_plan_atomic [OF k]
  have c: "meal_preference_rows (snd ?good) = meal_preference_rows db_dinner" by (elim conjE)
  have d: "map meal_plan_data (meal_plan_rows (snd ?good)) = [Some ''{meal_plan;}'']"
    "map shopping_list (meal_plan_rows (snd ?good)) = [Some ''{flour;}'']"
    by (simp_all add: run_generate_ok)
  from a b c d show ?thesis by (intro conjI)
qed

subsection \<open>The stored date range\<close>

lemma date_le_refl: "date_le a a"
  by (simp add: date_le_def)

lemma sorted_wrt_hd:
  "sorted_wrt P xs \<Longrightarrow> P (hd xs) (hd xs) \<Longrightarrow> x \<in> set xs \<Longrightarrow> P (hd xs) x"
  by (cases xs) auto

lemma sorted_wrt_last:
  "sorted_wrt P xs \<Longrightarrow> (\<And>a. P a a) \<Longrightarrow> x \<in> set xs \<Longrightarrow> P x (last xs)"
proof (induction xs)
  case Nil
  then show ?case by simp
next
  case (Cons y ys)
  show ?case
  proof (cases "ys = []")
    case True
    with Cons show ?thesis by simp
  next
    case False
    then have l: "last ys \<in> set ys" by simp
    show ?thesis
    proof (cases "x = y")
      case True
      with Cons.prems(1) l False show ?thesis by simp
    next
      case ne: False
      with Cons have "P x (last ys)" by simp
      with False show ?thesis by simp
    qed
  qed
qed

lemma seq_index_first: "seq_index xs 0 = (if xs = [] then None else Some (hd xs))"
  by (cases xs) (simp_all add: seq_index_def)

lemma seq_index_last: "seq_index xs (- 1) = (if xs = [] then None else Some (last xs))"
proof (cases "xs = []")
  case True
  then show ?thesis by (simp add: seq_index_def)
next
  case False
  then have "nat (int (length xs) - 1) = length xs - 1" by (cases xs) simp_all
  with False show ?thesis by (simp add: seq_index_def last_conv_nth)
qed

lemma entry_date_Inr:
  "entry_date plan_data i = Inr a \<longleftrightarrow>
   (\<exists>kvs entries x. plan_data = JObj kvs \<and> map_of kvs ''meal_plan'' = Some (JArr entries) \<and>
      seq_index entries i = Some x \<and> day_entry_date x = Inr a)"
proof (cases plan_data)
  case (JObj kvs)
  show ?thesis
  proof (cases "map_of kvs ''meal_plan''")
    case None
    with JObj show ?thesis by (simp add: entry_date_def bind_exn_def)
  next
    case (Some v)
    with JObj show ?thesis
      by (cases v)
        (auto simp: entry_date_def bind_exn_def day_entry_date_def not_subscriptable_def
          split: option.splits)
  qed
qed (simp_all add: entry_date_def bind_exn_def not_subscriptable_def)

lemma entry_date_first_last:
  assumes "entry_date plan_data 0 = Inr a" and "entry_date plan_data (- 1) = Inr b"
  shows "\<exists>kvs entries. plan_data = JObj kvs \<and> map_of kvs ''meal_plan'' = Some (JArr entries) \<and>
      entries \<noteq> [] \<and> day_entry_date (hd entries) = Inr a \<and> day_entry_date (last entries) = Inr b"
  using assms unfolding entry_date_Inr seq_index_first seq_index_last
  by (auto split: if_splits)

lemma sorted_dates_range:
  assumes m: "map day_entry_date entries = map Inr ds" and s: "sorted_wrt date_le ds"
    and ne: "entries \<noteq> []"
    and a: "day_entry_date (hd entries) = Inr a" and b: "day_entry_date (last entries) = Inr b"
  shows "a = hd ds \<and> b = last ds \<and> a \<in> set ds \<and> b \<in> set ds \<and>
         (\<forall>x \<in> set ds. date_le a x \<and> date_le x b)"
proof -
  from m have len: "length entries = length ds" by (metis length_map)
  with ne have dne: "ds \<noteq> []" by auto
  have "hd (map day_entry_date entries) = Inr (hd ds)" using dne by (simp add: m hd_map)
  with ne a have ha: "a = hd ds" by (simp add: hd_map)
  have "last (map day_entry_date entries) = Inr (last ds)" using dne by (simp add: m last_map)
  with ne b have hb: "b = last ds" by (simp add: last_map)
  have "date_le a x \<and> date_le x b" if "x \<in> set ds" for x
    using sorted_wrt_hd [OF s date_le_refl that] sorted_wrt_last [OF s date_le_refl that]
    by (simp add: ha hb)
  with ha hb dne show ?thesis by simp
qed

lemma entry_dates_unsorted:
  "entry_date plan_json_unsorted 0 = Inr \<lparr>year = 2024, month = 1, day = 3\<rparr>"
  "entry_date plan_json_unsorted (- 1) = Inr \<lparr>year = 2024, month = 1, day = 1\<rparr>"
  by (simp_all add: entry_date_def day_entry_date_def plan_json_unsorted_def bind_exn_def seq_index_def
      strptime_date_def ymd_match_def match_year_def after_dash_def month_alts_def
      day_alts_def is_digit_def digit_val_def in_range_def days_in_month_def is_leap_def)

text \<open>
  Claim C3 as stated fails: when the generated plan lists 2024-01-03 before 2024-01-01, the
  plan is stored with start date 2024-01-03 and end date 2024-01-01, so the start date is
  not the minimum, the end date is not the maximum and the end date is before the start
  date.
\<close>

theorem stored_dates_not_min_max:
  "generate_new_meal_plan env_unsorted 7 db_dinner =
   (([(''Your personalized meal plan has been generated!'', ''success'')], Redirect_view_meal_plan (Some 1)),
    \<lparr>meal_preference_rows = [pref_dinner],
     meal_plan_rows =
       [\<lparr>plan_id = Some 1, plan_user_id = 7,
         start_date = \<lparr>year = 2024, month = 1, day = 3\<rparr>,
         end_date = \<lparr>year = 2024, month = 1, day = 1\<rparr>,
         meal_plan_data = Some ''{meal_plan;}'', shopping_list = Some ''{flour;}'',
         plan_created_at = Some 100\<rparr>]\<rparr>) \<and>
   \<not> date_le \<lparr>year = 2024, month = 1, day = 3\<rparr> \<lparr>year = 2024, month = 1, day = 1\<rparr>"
proof -
  have f: "query_first env_unsorted (\<lambda>p. pref_user_id p = 7) (meal_preference_rows db_dinner) = Some pref_dinner"
    by (simp add: query_first_def db_dinner_def pref_dinner_def)
  have g: "generate_meal_plan env_unsorted pref_dinner = Inr plan_json_unsorted"
    "generate_shopping_list env_unsorted plan_json_unsorted = Inr (JObj [(''flour'', JStr ''3 cups'')])"
    "json_dumps env_unsorted plan_json_unsorted = Inr ''{meal_plan;}''"
    "json_dumps env_unsorted (JObj [(''flour'', JStr ''3 cups'')]) = Inr ''{flour;}''"
    "commit_error env_unsorted = None" "utcnow env_unsorted = 100"
    by (simp_all add: env_unsorted_def env_ok_def dumps_ex_def plan_json_unsorted_def)
  have "generate_new_meal_plan_try env_unsorted 7 db_dinner =
    Inr (([(''Your personalized meal plan has been generated!'', ''success'')], Redirect_view_meal_plan (Some 1)),
    \<lparr>meal_preference_rows = [pref_dinner],
     meal_plan_rows =
       [\<lparr>plan_id = Some 1, plan_user_id = 7,
         start_date = \<lparr>year = 2024, month = 1, day = 3\<rparr>,
         end_date = \<lparr>year = 2024, month = 1, day = 1\<rparr>,
         meal_plan_data = Some ''{meal_plan;}'', shopping_list = Some ''{flour;}'',
         plan_created_at = Some 100\<rparr>]\<rparr>)"
    unfolding generate_try_Some_Inr [OF f]
    by (simp add: g entry_dates_unsorted new_plan_row_def db_dinner_def next_id_def List.map_filter_def)
  then show ?thesis by (simp add: generate_new_meal_plan_def date_le_def)
qed

text \<open>
  Claim C3, amended. A plan that gets stored has a \<^verbatim>\<open>meal_plan\<close> list that is not empty;
  its start date is the date of the first day-entry of the list and its end date is the
  date of the last one. When every day-entry has a date that parses and the entries are in
  ascending order of date, these are the least and the greatest of the dates: both are dates
  of the plan and every day-entry's date lies between them.
\<close>

theorem stored_dates_first_and_last:
  "generate_new_meal_plan E uid d = (resp, d') \<Longrightarrow> d' \<noteq> d \<Longrightarrow>
   (\<exists>p prefs kvs entries.
      meal_plan_rows d' = meal_plan_rows d @ [p] \<and>
      query_first E (\<lambda>q. pref_user_id q = uid) (meal_preference_rows d) = Some prefs \<and>
      generate_meal_plan E prefs = Inr (JObj kvs) \<and>
      map_of kvs ''meal_plan'' = Some (JArr entries) \<and> entries \<noteq> [] \<and>
      day_entry_date (hd entries) = Inr (start_date p) \<and>
      day_entry_date (last entries) = Inr (end_date p) \<and>
      (\<forall>ds. map day_entry_date entries = map Inr ds \<and> sorted_wrt date_le ds \<longrightarrow>
         start_date p = hd ds \<and> end_date p = last ds \<and>
         start_date p \<in> set ds \<and> end_date p \<in> set ds \<and>
         (\<forall>x \<in> set ds. date_le (start_date p) x \<and> date_le x (end_date p))))"
proof -
  assume run: "generate_new_meal_plan E uid d = (resp, d')" and ch: "d' \<noteq> d"
  from generate_cases [OF run] ch obtain prefs plan_data list_data start_d end_d plan_json list_json where
    f: "query_first E (\<lambda>p. pref_user_id p = uid) (meal_preference_rows d) = Some prefs"
    and g: "generate_meal_plan E prefs = Inr plan_data"
    and e: "entry_date plan_data 0 = Inr start_d" "entry_date plan_data (- 1) = Inr end_d"
    and d': "d' = d\<lparr>meal_plan_rows := meal_plan_rows d @ [new_plan_row E uid d start_d end_d plan_json list_json]\<rparr>"
    by blast
  let ?p = "new_plan_row E uid d start_d end_d plan_json list_json"
  from entry_date_first_last [OF e] obtain kvs entries where
    k: "plan_data = JObj kvs" "map_of kvs ''meal_plan'' = Some (JArr entries)" "entries \<noteq> []"
      "day_entry_date (hd entries) = Inr start_d" "day_entry_date (last entries) = Inr end_d"
    by blast
  have sd: "start_date ?p = start_d" "end_date ?p = end_d" by (simp_all add: new_plan_row_def)
  have r: "\<forall>ds. map day_entry_date entries = map Inr ds \<and> sorted_wrt date_le ds \<longrightarrow>
         start_date ?p = hd ds \<and> end_date ?p = last ds \<and>
         start_date ?p \<in> set ds \<and> end_date ?p \<in> set ds \<and>
         (\<forall>x \<in> set ds. date_le (start_date ?p) x \<and> date_le x (end_date ?p))"
    unfolding sd using sorted_dates_range [OF _ _ k(3) k(4) k(5)] by blast
  have rows: "meal_plan_rows d' = meal_plan_rows d @ [?p]" by (simp add: d')
  from g k(1) have g': "generate_meal_plan E prefs = Inr (JObj kvs)" by simp
  from k(4,5) have k': "day_entry_date (hd entries) = Inr (start_date ?p)"
    "day_entry_date (last entries) = Inr (end_date ?p)" by (simp_all add: sd)
  from rows f g' k(2,3) k' r show ?thesis by blast
qed

text \<open>The plan with the days 2024-01-01 and 2024-01-03, in this order.\<close>

theorem stored_dates_first_and_last_witness:
  "snd (generate_new_meal_plan env_ok 7 db_dinner) \<noteq> db_dinner \<and>
   (\<exists>p. meal_plan_rows (snd (generate_new_meal_plan env_ok 7 db_dinner)) = meal_plan_rows db_dinner @ [p] \<and>
        start_date p = \<lparr>year = 2024, month = 1, day = 1\<rparr> \<and>
        end_date p = \<lparr>year = 2024, month = 1, day = 3\<rparr> \<and>
        date_le (start_date p) (end_date p))"
proof -
  let ?run = "generate_new_meal_plan env_ok 7 db_dinner"
  have h1: "?run = (fst ?run, snd ?run)" by simp
  have h2: "snd ?run \<noteq> db_dinner" unfolding run_generate_ok by (simp add: db_dinner_def)
  from stored_dates_first_and_last [OF h1 h2] obtain p where
    p: "meal_plan_rows (snd ?run) = meal_plan_rows db_dinner @ [p]" by blast
  then have "start_date p = \<lparr>year = 2024, month = 1, day = 1\<rparr> \<and>
        end_date p = \<lparr>year = 2024, month = 1, day = 3\<rparr>"
    unfolding run_generate_ok by (auto simp: db_dinner_def)
  moreover from this have "date_le (start_date p) (end_date p)" by (simp add: date_le_def)
  ultimately show ?thesis using h2 p by blast
qed

subsection \<open>Plans are only ever appended\<close>

lemma meal_preferences_try_plans:
  "meal_preferences_try E uid form d = Inr d' \<Longrightarrow> meal_plan_rows d' = meal_plan_rows d"
  by (auto simp: meal_preferences_try_def Let_def bind_exn_Inr session_commit_Inr)

lemma meal_preferences_plans:
  "meal_preferences E uid m form d = (resp, d') \<Longrightarrow>
   meal_plan_rows d' = meal_plan_rows d \<and> (\<forall>k. snd resp \<noteq> Redirect_view_meal_plan k)"
  using meal_preferences_cases [of E uid m form d resp d'] meal_preferences_try_plans [of E uid form d d']
  by auto

lemma generate_plans:
  assumes "generate_new_meal_plan E uid d = (resp, d')"
  shows "(meal_plan_rows d' = meal_plan_rows d \<and> (\<forall>k. snd resp \<noteq> Redirect_view_meal_plan k)) \<or>
         (\<exists>p. meal_plan_rows d' = meal_plan_rows d @ [p] \<and> plan_user_id p = uid \<and>
              plan_id p = Some (next_id (map plan_id (meal_plan_rows d))) \<and>
              snd resp = Redirect_view_meal_plan (plan_id p))"
proof -
  from generate_cases [OF assms] consider
    (same) "d' = d" "snd resp = Redirect_meal_preferences"
  | (stored) start_d end_d plan_json list_json where
      "d' = d\<lparr>meal_plan_rows := meal_plan_rows d @ [new_plan_row E uid d start_d end_d plan_json list_json]\<rparr>"
      "resp = ([(''Your personalized meal plan has been generated!'', ''success'')],
                    Redirect_view_meal_plan (Some (next_id (map plan_id (meal_plan_rows d)))))"
    by blast
  then show ?thesis
  proof cases
    case same
    then show ?thesis by simp
  next
    case stored
    let ?p = "new_plan_row E uid d start_d end_d plan_json list_json"
    have "meal_plan_rows d' = meal_plan_rows d @ [?p] \<and> plan_user_id ?p = uid \<and>
              plan_id ?p = Some (next_id (map plan_id (meal_plan_rows d))) \<and>
              snd resp = Redirect_view_meal_plan (plan_id ?p)"
      by (simp add: stored new_plan_row_def)
    then show ?thesis by blast
  qed
qed

lemma handle_plans:
  assumes "handle E cu req d = (resp, d')"
  shows "(meal_plan_rows d' = meal_plan_rows d \<and> (\<forall>k. snd resp \<noteq> Redirect_view_meal_plan k)) \<or>
         (\<exists>p. meal_plan_rows d' = meal_plan_rows d @ [p] \<and> req = Generate_new_meal_plan \<and>
              cu = Some (plan_user_id p) \<and>
              plan_id p = Some (next_id (map plan_id (meal_plan_rows d))) \<and>
              snd resp = Redirect_view_meal_plan (plan_id p))"
proof (cases cu)
  case None
  with assms show ?thesis by (cases req) auto
next
  case (Some uid)
  show ?thesis
  proof (cases req)
    case (Meal_preferences m form)
    with assms Some show ?thesis using meal_preferences_plans [of E uid m form d resp d'] by simp
  next
    case Generate_new_meal_plan
    with assms Some show ?thesis using generate_plans [of E uid d resp d'] by auto
  next
    case (View_meal_plan pid)
    with assms Some show ?thesis by (auto simp: view_meal_plan_def split: option.splits)
  next
    case List_meal_plans
    with assms Some show ?thesis by (auto simp: list_meal_plans_def)
  next
    case Other_route
    with assms show ?thesis by auto
  qed
qed

lemma handle_all_plans: "\<exists>new. meal_plan_rows (handle_all rs d) = meal_plan_rows d @ new"
proof (induction rs arbitrary: d)
  case Nil
  show ?case by simp
next
  case (Cons r rs)
  obtain E cu req where r: "r = (E, cu, req)" by (cases r) auto
  let ?d = "snd (handle E cu req d)"
  have "handle E cu req d = (fst (handle E cu req d), ?d)" by simp
  from handle_plans [OF this] obtain mid where m: "meal_plan_rows ?d = meal_plan_rows d @ mid"
    by auto
  from Cons.IH [of ?d] obtain new where "meal_plan_rows (handle_all rs ?d) = meal_plan_rows ?d @ new"
    by blast
  with m r show ?case by simp
qed

lemma pk_ok_append:
  "pk_ok ids \<Longrightarrow> pk_ok (ids @ [Some (next_id ids)])"
  using next_id_fresh [of ids] by (simp add: pk_ok_def)

text \<open>
  Claim C6. No request changes or removes a stored plan: after any request the plan table
  is the table before, or the table before with one row appended. A row is appended only
  by \<^verbatim>\<open>generate_new_meal_plan\<close>, for the user who asked, with a key that no stored row has;
  every request that is answered with the redirect to a new plan has appended that plan.
  So the stored plans stay, in their places and with all their fields, through every
  sequence of requests, and the keys stay distinct.
\<close>

theorem meal_plans_append_only:
  "handle E cu req d = (resp, d') \<Longrightarrow>
   (meal_plan_rows d' = meal_plan_rows d \<or>
    (\<exists>p. meal_plan_rows d' = meal_plan_rows d @ [p] \<and> req = Generate_new_meal_plan \<and>
         cu = Some (plan_user_id p) \<and>
         plan_id p = Some (next_id (map plan_id (meal_plan_rows d))) \<and>
         plan_id p \<notin> set (map plan_id (meal_plan_rows d)) \<and>
         snd resp = Redirect_view_meal_plan (plan_id p))) \<and>
   (\<forall>k. snd resp = Redirect_view_meal_plan k \<longrightarrow>
        (\<exists>p. meal_plan_rows d' = meal_plan_rows d @ [p] \<and> plan_id p = k \<and>
             k \<notin> set (map plan_id (meal_plan_rows d)))) \<and>
   take (length (meal_plan_rows d)) (meal_plan_rows d') = meal_plan_rows d \<and>
   (\<forall>rs. take (length (meal_plan_rows d)) (meal_plan_rows (handle_all rs d)) = meal_plan_rows d) \<and>
   (pk_ok (map plan_id (meal_plan_rows d)) \<longrightarrow> pk_ok (map plan_id (meal_plan_rows d')))"
proof -
  assume run: "handle E cu req d = (resp, d')"
  let ?rows = "meal_plan_rows d"
  have all: "\<forall>rs. take (length ?rows) (meal_plan_rows (handle_all rs d)) = ?rows"
  proof
    fix rs
    from handle_all_plans [of rs d] obtain new where
      "meal_plan_rows (handle_all rs d) = ?rows @ new" by blast
    then show "take (length ?rows) (meal_plan_rows (handle_all rs d)) = ?rows" by simp
  qed
  from handle_plans [OF run] consider
    (same) "meal_plan_rows d' = ?rows" "\<forall>k. snd resp \<noteq> Redirect_view_meal_plan k"
  | (appended) p where "meal_plan_rows d' = ?rows @ [p]" "req = Generate_new_meal_plan"
      "cu = Some (plan_user_id p)" "plan_id p = Some (next_id (map plan_id ?rows))"
      "snd resp = Redirect_view_meal_plan (plan_id p)"
    by blast
  then show ?thesis
  proof cases
    case same
    with all show ?thesis by simp
  next
    case appended
    have fresh: "plan_id p \<notin> set (map plan_id ?rows)"
      unfolding appended(4) by (rule next_id_fresh)
    have a: "\<exists>q. meal_plan_rows d' = ?rows @ [q] \<and> req = Generate_new_meal_plan \<and>
         cu = Some (plan_user_id q) \<and>
         plan_id q = Some (next_id (map plan_id ?rows)) \<and>
         plan_id q \<notin> set (map plan_id ?rows) \<and>
         snd resp = Redirect_view_meal_plan (plan_id q)"
      using appended fresh by blast
    have b: "\<forall>k. snd resp = Redirect_view_meal_plan k \<longrightarrow>
        (\<exists>q. meal_plan_rows d' = ?rows @ [q] \<and> plan_id q = k \<and> k \<notin> set (map plan_id ?rows))"
      using appended(1,5) fresh by auto
    have c: "take (length ?rows) (meal_plan_rows d') = ?rows" by (simp add: appended(1))
    have e: "pk_ok (map plan_id ?rows) \<longrightarrow> pk_ok (map plan_id (meal_plan_rows d'))"
      using pk_ok_append [of "map plan_id ?rows"] by (simp add: appended(1,4))
    from a b c all e show ?thesis by blast
  qed
qed

lemma run_generate_both:
  "generate_new_meal_plan env_ok 7 db_both =
   (([(''Your personalized meal plan has been generated!'', ''success'')], Redirect_view_meal_plan (Some 2)),
    \<lparr>meal_preference_rows = [pref_dinner],
     meal_plan_rows =
       [plan_A,
        \<lparr>plan_id = Some 2, plan_user_id = 7,
         start_date = \<lparr>year = 2024, month = 1, day = 1\<rparr>,
         end_date = \<lparr>year = 2024, month = 1, day = 3\<rparr>,
         meal_plan_data = Some ''{meal_plan;}'', shopping_list = Some ''{flour;}'',
         plan_created_at = Some 100\<rparr>]\<rparr>)"
proof -
  have f: "query_first env_ok (\<lambda>p. pref_user_id p = 7) (meal_preference_rows db_both) = Some pref_dinner"
    by (simp add: query_first_def db_both_def pref_dinner_def)
  have g: "generate_meal_plan env_ok pref_dinner = Inr plan_json_ex"
    "generate_shopping_list env_ok plan_json_ex = Inr (JObj [(''flour'', JStr ''3 cups'')])"
    "json_dumps env_ok plan_json_ex = Inr ''{meal_plan;}''"
    "json_dumps env_ok (JObj [(''flour'', JStr ''3 cups'')]) = Inr ''{flour;}''"
    "commit_error env_ok = None" "utcnow env_ok = 100"
    by (simp_all add: env_ok_def dumps_ex_def plan_json_ex_def)
  have i: "next_id (map plan_id (meal_plan_rows db_both)) = 2"
    by (simp add: db_both_def plan_A_def next_id_def List.map_filter_def)
  have "generate_new_meal_plan_try env_ok 7 db_both =
    Inr (([(''Your personalized meal plan has been generated!'', ''success'')], Redirect_view_meal_plan (Some 2)),
    \<lparr>meal_preference_rows = [pref_dinner],
     meal_plan_rows =
       [plan_A,
        \<lparr>plan_id = Some 2, plan_user_id = 7,
         start_date = \<lparr>year = 2024, month = 1, day = 1\<rparr>,
         end_date = \<lparr>year = 2024, month = 1, day = 3\<rparr>,
         meal_plan_data = Some ''{meal_plan;}'', shopping_list = Some ''{flour;}'',
         plan_created_at = Some 100\<rparr>]\<rparr>)"
    unfolding generate_try_Some_Inr [OF f] new_plan_row_def i
    by (simp add: g entry_dates_ex db_both_def)
  then show ?thesis by (simp add: generate_new_meal_plan_def)
qed

text \<open>User 7 generates a plan while plan 1 of user 10 is stored: plan 1 stays, plan 2 is new.\<close>

theorem meal_plans_append_only_witness:
  "pk_ok (map plan_id (meal_plan_rows db_both)) \<and>
   snd (fst (handle env_ok (Some 7) Generate_new_meal_plan db_both)) = Redirect_view_meal_plan (Some 2) \<and>
   take 1 (meal_plan_rows (snd (handle env_ok (Some 7) Generate_new_meal_plan db_both))) = [plan_A] \<and>
   map plan_id (meal_plan_rows (snd (handle env_ok (Some 7) Generate_new_meal_plan db_both))) = [Some 1, Some 2] \<and>
   pk_ok (map plan_id (meal_plan_rows (snd (handle env_ok (Some 7) Generate_new_meal_plan db_both))))"
proof -
  let ?run = "handle env_ok (Some 7) Generate_new_meal_plan db_both"
  have h: "?run = (fst ?run, snd ?run)" by simp
  note t = meal_plans_append_only [OF h]
  have a: "pk_ok (map plan_id (meal_plan_rows db_both))"
    by (simp add: pk_ok_def db_both_def plan_A_def)
  have b: "snd (fst ?run) = Redirect_view_meal_plan (Some 2)" by (simp add: run_generate_both)
  from t have "take (length (meal_plan_rows db_both)) (meal_plan_rows (snd ?run)) = meal_plan_rows db_both"
    by (elim conjE)
  then have c: "take 1 (meal_plan_rows (snd ?run)) = [plan_A]" by (simp add: db_both_def)
  have e: "map plan_id (meal_plan_rows (snd ?run)) = [Some 1, Some 2]"
    by (simp add: run_generate_both plan_A_def)
  from t a have f: "pk_ok (map plan_id (meal_plan_rows (snd ?run)))" by blast
  from a b c e f show ?thesis by (intro conjI)
qed

subsection \<open>What the user sees when generation fails\<close>

lemma generate_error_flash:
  "generate_new_meal_plan_try E uid d = Inl e \<Longrightarrow>
   generate_new_meal_plan E uid d =
   (([(''Error generating meal plan: '' @ str_exn e, ''error'')], Redirect_meal_preferences), d)"
  by (simp add: generate_new_meal_plan_def)

lemma find_dinner: "query_first E (\<lambda>p. pref_user_id p = 7) (meal_preference_rows db_dinner) = Some pref_dinner"
  by (simp add: query_first_def db_dinner_def pref_dinner_def)

text \<open>
  Claim C7 does not hold of the code: the message of \<^verbatim>\<open>generate_new_meal_plan\<close> is the text
  of the exception after a fixed prefix, so two failures give two messages, each with the
  detail of its failure, and neither asks to try again.
\<close>

theorem generate_error_shows_exception_text:
  "generate_new_meal_plan env_quota 7 db_dinner =
     (([(''Error generating meal plan: Quota exceeded for organization org-42'', ''error'')],
       Redirect_meal_preferences), db_dinner) \<and>
   generate_new_meal_plan env_timeout 7 db_dinner =
     (([(''Error generating meal plan: Connection timed out'', ''error'')],
       Redirect_meal_preferences), db_dinner)"
proof -
  have "generate_new_meal_plan_try env_quota 7 db_dinner = Inl (Raised ''Quota exceeded for organization org-42'')"
    unfolding generate_try_Some_Inl [OF find_dinner] by (simp add: env_quota_def)
  from generate_error_flash [OF this] have a: "generate_new_meal_plan env_quota 7 db_dinner =
     (([(''Error generating meal plan: Quota exceeded for organization org-42'', ''error'')],
       Redirect_meal_preferences), db_dinner)" by simp
  have "generate_new_meal_plan_try env_timeout 7 db_dinner = Inl (Raised ''Connection timed out'')"
    unfolding generate_try_Some_Inl [OF find_dinner] by (simp add: env_timeout_def)
  from generate_error_flash [OF this] have b: "generate_new_meal_plan env_timeout 7 db_dinner =
     (([(''Error generating meal plan: Connection timed out'', ''error'')],
       Redirect_meal_preferences), db_dinner)" by simp
  from a b show ?thesis by (intro conjI)
qed

subsection \<open>Which preference generation reads\<close>

lemma find_filter: "find P xs = (case filter P xs of [] \<Rightarrow> None | x # _ \<Rightarrow> Some x)"
  by (induction xs) auto

lemma generate_try_congr:
  assumes "query_first E (\<lambda>p. pref_user_id p = uid) (meal_preference_rows d1) =
           query_first E (\<lambda>p. pref_user_id p = uid) (meal_preference_rows d2)"
    and "meal_plan_rows d1 = meal_plan_rows d2"
  shows "fst (generate_new_meal_plan E uid d1) = fst (generate_new_meal_plan E uid d2) \<and>
         meal_plan_rows (snd (generate_new_meal_plan E uid d1)) =
         meal_plan_rows (snd (generate_new_meal_plan E uid d2))"
  using assms
  by (simp add: generate_new_meal_plan_def generate_new_meal_plan_try_def bind_exn_def
      session_commit_def session_add_plan_def Let_def split: option.splits sum.splits)

text \<open>
  Claim C10 as stated fails: user 7 has a preference row, the generated value has no
  \<^verbatim>\<open>meal_plan\<close> key, and the request is answered with the redirect to the preferences page.
\<close>

theorem redirect_with_a_preference_row:
  "user_preferences 7 db_dinner = [pref_dinner] \<and>
   generate_new_meal_plan env_nokey 7 db_dinner =
     (([(''Error generating meal plan: '' @ [CHR 0x27] @ ''meal_plan'' @ [CHR 0x27], ''error'')],
       Redirect_meal_preferences), db_dinner)"
proof -
  have a: "user_preferences 7 db_dinner = [pref_dinner]"
    by (simp add: user_preferences_def db_dinner_def pref_dinner_def)
  have r: "py_repr ''meal_plan'' = [CHR 0x27] @ ''meal_plan'' @ [CHR 0x27]"
    by (simp add: py_repr_def repr_char_def is_printable_def Let_def)
  have e: "entry_date (JObj []) 0 = Inl (KeyError ([CHR 0x27] @ ''meal_plan'' @ [CHR 0x27]))"
    unfolding entry_date_def by (simp add: bind_exn_def r)
  have "generate_new_meal_plan_try env_nokey 7 db_dinner =
        Inl (KeyError ([CHR 0x27] @ ''meal_plan'' @ [CHR 0x27]))"
    unfolding generate_try_Some_Inl [OF find_dinner] by (simp add: env_nokey_def env_ok_def e)
  from generate_error_flash [OF this] have "generate_new_meal_plan env_nokey 7 db_dinner =
     (([(''Error generating meal plan: '' @ [CHR 0x27] @ ''meal_plan'' @ [CHR 0x27], ''error'')],
       Redirect_meal_preferences), db_dinner)" by simp
  with a show ?thesis by (intro conjI)
qed

lemma query_first_user:
  "query_first E (\<lambda>p. pref_user_id p = uid) (meal_preference_rows d) =
   (case user_preferences uid d of
      [] \<Rightarrow> None
    | x # xs \<Rightarrow> Some ((x # xs) ! (row_choice E mod length (x # xs))))"
  by (simp add: query_first_def user_preferences_def)

lemma query_first_any:
  assumes "r \<in> set rows" and "P r"
  shows "\<exists>k. query_first (E\<lparr>row_choice := k\<rparr>) P rows = Some r"
proof -
  from assms have "r \<in> set (filter P rows)" by simp
  then obtain k where k: "k < length (filter P rows)" "filter P rows ! k = r"
    unfolding in_set_conv_nth by blast
  then obtain x xs where x: "filter P rows = x # xs" by (cases "filter P rows") auto
  with k have "query_first (E\<lparr>row_choice := k\<rparr>) P rows = Some r"
    by (simp add: query_first_def)
  then show ?thesis ..
qed

lemma generate_stages:
  assumes run: "generate_new_meal_plan E uid d = (resp, d')"
    and f: "query_first E (\<lambda>p. pref_user_id p = uid) (meal_preference_rows d) = Some prefs"
  shows "(\<forall>e. generate_meal_plan E prefs = Inl e \<longrightarrow> resp = error_answer e \<and> d' = d) \<and>
   (\<forall>plan_data. generate_meal_plan E prefs = Inr plan_data \<longrightarrow>
     (\<forall>e. generate_shopping_list E plan_data = Inl e \<longrightarrow> resp = error_answer e \<and> d' = d) \<and>
     (\<forall>list_data. generate_shopping_list E plan_data = Inr list_data \<longrightarrow>
       (\<forall>e. entry_date plan_data 0 = Inl e \<longrightarrow> resp = error_answer e \<and> d' = d) \<and>
       (\<forall>start_d. entry_date plan_data 0 = Inr start_d \<longrightarrow>
         (\<forall>e. entry_date plan_data (- 1) = Inl e \<longrightarrow> resp = error_answer e \<and> d' = d) \<and>
         (\<forall>end_d. entry_date plan_data (- 1) = Inr end_d \<longrightarrow>
           (\<forall>e. json_dumps E plan_data = Inl e \<longrightarrow> resp = error_answer e \<and> d' = d) \<and>
           (\<forall>plan_json. json_dumps E plan_data = Inr plan_json \<longrightarrow>
             (\<forall>e. json_dumps E list_data = Inl e \<longrightarrow> resp = error_answer e \<and> d' = d) \<and>
             (\<forall>list_json. json_dumps E list_data = Inr list_json \<longrightarrow>
               (\<forall>e. commit_error E = Some e \<longrightarrow> resp = error_answer e \<and> d' = d) \<and>
               (commit_error E = None \<longrightarrow>
                  resp = ([(''Your personalized meal plan has been generated!'', ''success'')],
                          Redirect_view_meal_plan (Some (next_id (map plan_id (meal_plan_rows d))))) \<and>
                  d' = d\<lparr>meal_plan_rows := meal_plan_rows d @
                         [new_plan_row E uid d start_d end_d plan_json list_json]\<rparr>)))))))"
  using run
  by (auto simp: generate_new_meal_plan_def generate_new_meal_plan_try_def f bind_exn_def
      session_commit_def session_add_plan_def default_now_def new_plan_row_def error_answer_def Let_def)

text \<open>
  Claim C10, amended. Generation reads one preference row: the row that the query for
  the user's preferences answers first, whatever its meal type (the query has no order, so
  which of the user's rows that is is the database's choice). With the same row read and
  the same stored plans, the answer and the plans stored are the same whatever other rows
  the user has. The request is answered with the warning to set the preferences first
  exactly when the user has no preference row, and then stores nothing. With a row read,
  the stages run in their order (generation from that row, derivation of the list, the date
  of the first entry, the date of the last entry, the two serialisations, the commit); the
  first stage that fails with an exception \<open>e\<close> is answered with the redirect to the
  preferences page and the message made of \<open>e\<close>, and nothing is stored; when no stage fails
  the answer is the redirect to the new plan and the plan is stored. So a redirect to the
  preferences page, for a user with a row, means a failed stage.
\<close>

theorem generation_reads_first_preference:
  "generate_new_meal_plan E uid d = (resp, d') \<Longrightarrow>
   (user_preferences uid d = [] \<longleftrightarrow>
      resp = ([(''Please set your meal preferences first'', ''warning'')], Redirect_meal_preferences)) \<and>
   (user_preferences uid d = [] \<longrightarrow> d' = d) \<and>
   (user_preferences uid d \<noteq> [] \<longrightarrow>
      (\<exists>prefs. query_first E (\<lambda>p. pref_user_id p = uid) (meal_preference_rows d) = Some prefs)) \<and>
   (\<forall>prefs. query_first E (\<lambda>p. pref_user_id p = uid) (meal_preference_rows d) = Some prefs \<longrightarrow>
      prefs \<in> set (user_preferences uid d) \<and>
      (\<forall>d2. query_first E (\<lambda>p. pref_user_id p = uid) (meal_preference_rows d2) = Some prefs \<and>
            meal_plan_rows d2 = meal_plan_rows d \<longrightarrow>
           fst (generate_new_meal_plan E uid d2) = resp \<and>
           meal_plan_rows (snd (generate_new_meal_plan E uid d2)) = meal_plan_rows d') \<and>
      (snd resp = Redirect_meal_preferences \<longrightarrow> d' = d \<and> (\<exists>e. resp = error_answer e)) \<and>
      (snd resp \<noteq> Redirect_meal_preferences \<longrightarrow>
           (\<exists>plan_data. generate_meal_plan E prefs = Inr plan_data)) \<and>
      (\<forall>e. generate_meal_plan E prefs = Inl e \<longrightarrow> resp = error_answer e \<and> d' = d) \<and>
      (\<forall>plan_data. generate_meal_plan E prefs = Inr plan_data \<longrightarrow>
        (\<forall>e. generate_shopping_list E plan_data = Inl e \<longrightarrow> resp = error_answer e \<and> d' = d) \<and>
        (\<forall>list_data. generate_shopping_list E plan_data = Inr list_data \<longrightarrow>
          (\<forall>e. entry_date plan_data 0 = Inl e \<longrightarrow> resp = error_answer e \<and> d' = d) \<and>
          (\<forall>start_d. entry_date plan_data 0 = Inr start_d \<longrightarrow>
            (\<forall>e. entry_date plan_data (- 1) = Inl e \<longrightarrow> resp = error_answer e \<and> d' = d) \<and>
            (\<forall>end_d. entry_date plan_data (- 1) = Inr end_d \<longrightarrow>
              (\<forall>e. json_dumps E plan_data = Inl e \<longrightarrow> resp = error_answer e \<and> d' = d) \<and>
              (\<forall>plan_json. json_dumps E plan_data = Inr plan_json \<longrightarrow>
                (\<forall>e. json_dumps E list_data = Inl e \<longrightarrow> resp = error_answer e \<and> d' = d) \<and>
                (\<forall>list_json. json_dumps E list_data = Inr list_json \<longrightarrow>
                  (\<forall>e. commit_error E = Some e \<longrightarrow> resp = error_answer e \<and> d' = d) \<and>
                  (commit_error E = None \<longrightarrow>
                     resp = ([(''Your personalized meal plan has been generated!'', ''success'')],
                             Redirect_view_meal_plan (Some (next_id (map plan_id (meal_plan_rows d))))) \<and>
                     d' = d\<lparr>meal_plan_rows := meal_plan_rows d @
                            [new_plan_row E uid d start_d end_d plan_json list_json]\<rparr>))))))))"
proof -
  assume run: "generate_new_meal_plan E uid d = (resp, d')"
  let ?Q = "\<lambda>x. query_first E (\<lambda>p. pref_user_id p = uid) (meal_preference_rows x)"
  note cases = generate_cases [OF run]
  have a: "user_preferences uid d = [] \<longleftrightarrow>
      resp = ([(''Please set your meal preferences first'', ''warning'')], Redirect_meal_preferences)"
  proof (cases "user_preferences uid d")
    case Nil
    then have "?Q d = None" by (simp add: query_first_user)
    with cases Nil show ?thesis by auto
  next
    case (Cons p ps)
    then obtain q where "?Q d = Some q" by (simp add: query_first_user)
    with cases Cons show ?thesis by auto
  qed
  have a2: "user_preferences uid d = [] \<longrightarrow> d' = d"
  proof
    assume "user_preferences uid d = []"
    then have "?Q d = None" by (simp add: query_first_user)
    with cases show "d' = d" by auto
  qed
  have a3: "user_preferences uid d \<noteq> [] \<longrightarrow> (\<exists>prefs. ?Q d = Some prefs)"
    by (cases "user_preferences uid d") (simp_all add: query_first_user)
  have b: "prefs \<in> set (user_preferences uid d) \<and>
      (\<forall>d2. ?Q d2 = Some prefs \<and> meal_plan_rows d2 = meal_plan_rows d \<longrightarrow>
           fst (generate_new_meal_plan E uid d2) = resp \<and>
           meal_plan_rows (snd (generate_new_meal_plan E uid d2)) = meal_plan_rows d') \<and>
      (snd resp = Redirect_meal_preferences \<longrightarrow> d' = d \<and> (\<exists>e. resp = error_answer e)) \<and>
      (snd resp \<noteq> Redirect_meal_preferences \<longrightarrow>
           (\<exists>plan_data. generate_meal_plan E prefs = Inr plan_data)) \<and>
      (\<forall>e. generate_meal_plan E prefs = Inl e \<longrightarrow> resp = error_answer e \<and> d' = d) \<and>
      (\<forall>plan_data. generate_meal_plan E prefs = Inr plan_data \<longrightarrow>
        (\<forall>e. generate_shopping_list E plan_data = Inl e \<longrightarrow> resp = error_answer e \<and> d' = d) \<and>
        (\<forall>list_data. generate_shopping_list E plan_data = Inr list_data \<longrightarrow>
          (\<forall>e. entry_date plan_data 0 = Inl e \<longrightarrow> resp = error_answer e \<and> d' = d) \<and>
          (\<forall>start_d. entry_date plan_data 0 = Inr start_d \<longrightarrow>
            (\<forall>e. entry_date plan_data (- 1) = Inl e \<longrightarrow> resp = error_answer e \<and> d' = d) \<and>
            (\<forall>end_d. entry_date plan_data (- 1) = Inr end_d \<longrightarrow>
              (\<forall>e. json_dumps E plan_data = Inl e \<longrightarrow> resp = error_answer e \<and> d' = d) \<and>
              (\<forall>plan_json. json_dumps E plan_data = Inr plan_json \<longrightarrow>
                (\<forall>e. json_dumps E list_data = Inl e \<longrightarrow> resp = error_answer e \<and> d' = d) \<and>
                (\<forall>list_json. json_dumps E list_data = Inr list_json \<longrightarrow>
                  (\<forall>e. commit_error E = Some e \<longrightarrow> resp = error_answer e \<and> d' = d) \<and>
                  (commit_error E = None \<longrightarrow>
                     resp = ([(''Your personalized meal plan has been generated!'', ''success'')],
                             Redirect_view_meal_plan (Some (next_id (map plan_id (meal_plan_rows d))))) \<and>
                     d' = d\<lparr>meal_plan_rows := meal_plan_rows d @
                            [new_plan_row E uid d start_d end_d plan_json list_json]\<rparr>)))))))"
    if f: "?Q d = Some prefs" for prefs
  proof -
    from query_first_Some [OF f] have p1: "prefs \<in> set (user_preferences uid d)"
      by (simp add: user_preferences_def)
    have p2: "\<forall>d2. ?Q d2 = Some prefs \<and> meal_plan_rows d2 = meal_plan_rows d \<longrightarrow>
           fst (generate_new_meal_plan E uid d2) = resp \<and>
           meal_plan_rows (snd (generate_new_meal_plan E uid d2)) = meal_plan_rows d'"
    proof (intro allI impI)
      fix d2 :: db
      assume h: "?Q d2 = Some prefs \<and> meal_plan_rows d2 = meal_plan_rows d"
      then have "?Q d2 = ?Q d" by (simp add: f)
      from generate_try_congr [OF this] h
      have "fst (generate_new_meal_plan E uid d2) = fst (generate_new_meal_plan E uid d) \<and>
         meal_plan_rows (snd (generate_new_meal_plan E uid d2)) =
         meal_plan_rows (snd (generate_new_meal_plan E uid d))" by simp
      then show "fst (generate_new_meal_plan E uid d2) = resp \<and>
           meal_plan_rows (snd (generate_new_meal_plan E uid d2)) = meal_plan_rows d'"
        by (simp add: run)
    qed
    have p3: "snd resp = Redirect_meal_preferences \<longrightarrow> d' = d \<and> (\<exists>e. resp = error_answer e)"
      using cases f by (auto simp: error_answer_def)
    have p4: "snd resp \<noteq> Redirect_meal_preferences \<longrightarrow>
           (\<exists>plan_data. generate_meal_plan E prefs = Inr plan_data)"
      using cases f by auto
    note st = generate_stages [OF run f]
    show ?thesis by (rule conjI [OF p1 conjI [OF p2 conjI [OF p3 conjI [OF p4 st]]]])
  qed
  from a a2 a3 b show ?thesis by blast
qed

text \<open>
  User 7 with a dinner and a breakfast row, the dinner row being read, gets the answer of
  user 7 with the dinner row only; on the empty table the answer is the warning; and when
  the commit fails the answer is the redirect with the message of the failure.
\<close>

theorem generation_reads_first_preference_witness:
  "user_preferences 7 db_two = [pref_dinner, pref_breakfast] \<and>
   query_first env_ok (\<lambda>p. pref_user_id p = 7) (meal_preference_rows db_two) = Some pref_dinner \<and>
   query_first env_ok (\<lambda>p. pref_user_id p = 7) (meal_preference_rows db_dinner) = Some pref_dinner \<and>
   fst (generate_new_meal_plan env_ok 7 db_dinner) = fst (generate_new_meal_plan env_ok 7 db_two) \<and>
   user_preferences 7 db_empty = [] \<and>
   fst (generate_new_meal_plan env_ok 7 db_empty) =
     ([(''Please set your meal preferences first'', ''warning'')], Redirect_meal_preferences) \<and>
   commit_error env_commit_fails = Some (Raised ''connection lost'') \<and>
   fst (generate_new_meal_plan env_commit_fails 7 db_dinner) =
     ([(''Error generating meal plan: connection lost'', ''error'')], Redirect_meal_preferences) \<and>
   snd (generate_new_meal_plan env_commit_fails 7 db_dinner) = db_dinner"
proof -
  let ?two = "generate_new_meal_plan env_ok 7 db_two"
  let ?none = "generate_new_meal_plan env_ok 7 db_empty"
  let ?bad = "generate_new_meal_plan env_commit_fails 7 db_dinner"
  have h: "?two = (fst ?two, snd ?two)" by simp
  have k: "?none = (fst ?none, snd ?none)" by simp
  have l: "?bad = (fst ?bad, snd ?bad)" by simp
  have a: "user_preferences 7 db_two = [pref_dinner, pref_breakfast]"
    by (simp add: user_preferences_def db_two_def pref_dinner_def pref_breakfast_def)
  have q2: "query_first env_ok (\<lambda>p. pref_user_id p = 7) (meal_preference_rows db_two) = Some pref_dinner"
    by (simp add: query_first_def db_two_def pref_dinner_def pref_breakfast_def env_ok_def)
  have q1: "query_first env_ok (\<lambda>p. pref_user_id p = 7) (meal_preference_rows db_dinner) = Some pref_dinner"
    by (rule find_dinner)
  have m: "meal_plan_rows db_dinner = meal_plan_rows db_two" by (simp add: db_dinner_def db_two_def)
  note t2 = generation_reads_first_preference [OF h, THEN conjunct2, THEN conjunct2, THEN conjunct2,
      THEN spec, THEN mp, OF q2]
  from t2 q1 m have c: "fst (generate_new_meal_plan env_ok 7 db_dinner) = fst ?two" by blast
  have e: "user_preferences 7 db_empty = []" by (simp add: user_preferences_def db_empty_def)
  from generation_reads_first_preference [OF k, THEN conjunct1] e
  have f: "fst ?none = ([(''Please set your meal preferences first'', ''warning'')], Redirect_meal_preferences)"
    by simp
  have g: "generate_meal_plan env_commit_fails pref_dinner = Inr plan_json_ex"
    "generate_shopping_list env_commit_fails plan_json_ex = Inr (JObj [(''flour'', JStr ''3 cups'')])"
    "json_dumps env_commit_fails plan_json_ex = Inr ''{meal_plan;}''"
    "json_dumps env_commit_fails (JObj [(''flour'', JStr ''3 cups'')]) = Inr ''{flour;}''"
    "commit_error env_commit_fails = Some (Raised ''connection lost'')"
    by (simp_all add: env_commit_fails_def env_ok_def dumps_ex_def plan_json_ex_def)
  note st = generation_reads_first_preference [OF l, THEN conjunct2, THEN conjunct2, THEN conjunct2,
      THEN spec, THEN mp, OF find_dinner, THEN conjunct2, THEN conjunct2, THEN conjunct2,
      THEN conjunct2, THEN conjunct2]
  note st1 = st [THEN spec, THEN mp, OF g(1), THEN conjunct2, THEN spec, THEN mp, OF g(2),
      THEN conjunct2, THEN spec, THEN mp, OF entry_dates_ex(1),
      THEN conjunct2, THEN spec, THEN mp, OF entry_dates_ex(2),
      THEN conjunct2, THEN spec, THEN mp, OF g(3),
      THEN conjunct2, THEN spec, THEN mp, OF g(4),
      THEN conjunct1, THEN spec, THEN mp, OF g(5)]
  from st1 have b1: "fst ?bad = ([(''Error generating meal plan: connection lost'', ''error'')], Redirect_meal_preferences)"
    by (simp add: error_answer_def)
  from st1 have b2: "snd ?bad = db_dinner" by simp
  from a q2 q1 c e f g(5) b1 b2 show ?thesis by (intro conjI)
qed

subsection \<open>The date parser and the string functions on examples\<close>

lemma strptime_date_examples:
  "strptime_date (JStr ''2024-01-03'') = Inr \<lparr>year = 2024, month = 1, day = 3\<rparr>"
  "strptime_date (JStr ''2024-1-3'') = Inr \<lparr>year = 2024, month = 1, day = 3\<rparr>"
  "strptime_date (JStr ''2024-02-29'') = Inr \<lparr>year = 2024, month = 2, day = 29\<rparr>"
  "strptime_date (JStr ''2023-02-29'') = Inl (ValueError ''day is out of range for month'')"
  "strptime_date (JStr ''2024-01-031'') = Inl (ValueError ''unconverted data remains: 1'')"
  "strptime_date (JStr ''0000-01-01'') = Inl (ValueError ''year 0 is out of range'')"
  "strptime_date (JInt 20240103) = Inl (TypeError ''strptime() argument 1 must be str, not int'')"
  "strptime_date JNull = Inl (TypeError ''strptime() argument 1 must be str, not None'')"
  by (simp_all add: strptime_date_def ymd_match_def match_year_def after_dash_def month_alts_def
      day_alts_def is_digit_def digit_val_def in_range_def days_in_month_def is_leap_def
      arg_type_name_def)

lemma strptime_date_no_match:
  "strptime_date (JStr ''01/03/2024'') =
   Inl (ValueError (''time data '' @ [CHR 0x27] @ ''01/03/2024'' @ [CHR 0x27] @
                    '' does not match format '' @ [CHR 0x27] @ ''%Y-%m-%d'' @ [CHR 0x27]))"
  by (simp add: strptime_date_def ymd_match_def match_year_def after_dash_def is_digit_def
      py_repr_def repr_char_def is_printable_def Let_def)

lemma split_strip_examples:
  "split_on CHR '','' ''a,,b'' = [''a'', [], ''b'']"
  "split_on CHR '','' [] = [[]]"
  "strip ''  olive oil  '' = ''olive oil''"
  "strftime_HM \<lparr>hour = 7, minute = 0, second = 0\<rparr> = ''07:00''"
  by (simp_all add: strip_def is_space_def strftime_HM_def two_digits_def show_nat_digit_def)

text \<open>
  Plans of one user with the time stamps 5, 9, 5: the latest first, the two of time 5 in the
  order of the table. And of two rows that match, either can be the one a query answers
  first.
\<close>

lemma list_meal_plans_example:
  "list_meal_plans 10
     \<lparr>meal_preference_rows = [],
      meal_plan_rows = [plan_A, plan_A\<lparr>plan_id := Some 2, plan_created_at := Some 9\<rparr>,
                        plan_A\<lparr>plan_id := Some 3\<rparr>]\<rparr> =
   ([], Render_list_meal_plans
          [plan_A\<lparr>plan_id := Some 2, plan_created_at := Some 9\<rparr>, plan_A, plan_A\<lparr>plan_id := Some 3\<rparr>])"
  by (simp add: list_meal_plans_def created_key_def plan_A_def)

lemma query_first_example:
  "query_first (env_ok\<lparr>row_choice := 0\<rparr>) (\<lambda>p. pref_user_id p = 7) (meal_preference_rows db_two) = Some pref_dinner"
  "query_first (env_ok\<lparr>row_choice := 1\<rparr>) (\<lambda>p. pref_user_id p = 7) (meal_preference_rows db_two) = Some pref_breakfast"
  by (simp_all add: query_first_def db_two_def pref_dinner_def pref_breakfast_def)

end
